theory Spec2Isabelle
  imports Main "HOL-Library.Word" "HOL-Library.Char_ord" "HOL-Library.List_Lexorder"
begin

unbundle bit_operations_syntax

text \<open>
  A model of \<open>decky_plugin_installer.py\<close>: the WebSocket frame codec inside
  \<open>DeckyClient.send\<close>, \<open>recv\<close> and \<open>close\<close>, and the three flows
  \<open>run_installer\<close>, \<open>configure_store_url\<close> and \<open>get_store_url\<close>. A step that may
  raise returns \<open>Inl\<close> of the exception, and the client object is passed along and
  returned. The definitions of the program come first, then those used only in the
  reasoning and in the examples, then the facts, and last the claims C1 to C10.
\<close>

section \<open>Bytes, big-endian integers and masking\<close>

text \<open>
  The wire is a sequence of octets. \<open>struct.pack("!H", n)\<close> and \<open>struct.pack("!Q", n)\<close>
  write \<open>n\<close> as 2 and 8 big-endian octets; \<open>struct.unpack\<close> reads them back as an
  unsigned number. A Python \<open>bytes\<close> object holds fewer than \<open>2 ^ 63\<close> octets, so
  \<open>pack_Q\<close> is never given a length it cannot hold and \<open>struct.error\<close> is not a
  branch of \<open>send\<close>.
\<close>

type_synonym byte = "8 word"

fun be_bytes :: "nat \<Rightarrow> nat \<Rightarrow> byte list" where
  "be_bytes 0 n = []"
| "be_bytes (Suc k) n = be_bytes k (n div 256) @ [of_nat n]"

definition pack_H :: "nat \<Rightarrow> byte list" where
  "pack_H n = be_bytes 2 n"

definition pack_Q :: "nat \<Rightarrow> byte list" where
  "pack_Q n = be_bytes 8 n"

definition unpack_be :: "byte list \<Rightarrow> nat" where
  "unpack_be bs = foldl (\<lambda>acc b. acc * 256 + unat b) 0 bs"

text \<open>
  \<open>bytes(b ^ mask[i % 4] for i, b in enumerate(payload))\<close>, the same expression in
  \<open>send\<close>, \<open>recv\<close> and \<open>close\<close>.
\<close>

definition xor_mask :: "byte list \<Rightarrow> byte list \<Rightarrow> byte list" where
  "xor_mask mask' payload = map (\<lambda>(i, b). b XOR mask' ! (i mod 4)) (enumerate 0 payload)"

text \<open>\<open>os.urandom(4)\<close> gives exactly four octets.\<close>

type_synonym mask4 = "byte \<times> byte \<times> byte \<times> byte"

fun mask_bytes :: "mask4 \<Rightarrow> byte list" where
  "mask_bytes (a, b, c, d) = [a, b, c, d]"

text \<open>
  Lines 88 to 106 of \<open>send\<close>: the frame built around a payload. The first octet is
  \<open>0x81\<close> (FIN, opcode Text); the second carries the mask bit and the length class.
\<close>

definition text_frame :: "mask4 \<Rightarrow> byte list \<Rightarrow> byte list" where
  "text_frame mask' payload =
     (let len = length payload;
          frame = [0x81];
          frame = (if len < 126 then frame @ [of_nat len OR 0x80]
                   else if len < 65536 then frame @ [126 OR 0x80] @ pack_H len
                   else frame @ [127 OR 0x80] @ pack_Q len);
          frame = frame @ mask_bytes mask';
          masked_payload = xor_mask (mask_bytes mask') payload
      in frame @ masked_payload)"

text \<open>Lines 145 to 150 of \<open>close\<close>: the Close frame with status 1000.\<close>

definition close_frame :: "mask4 \<Rightarrow> byte list" where
  "close_frame mask' =
     (let payload = pack_H 1000;
          frame = [0x88, 0x80 OR of_nat (length payload)];
          frame = frame @ mask_bytes mask';
          masked_payload = xor_mask (mask_bytes mask') payload
      in frame @ masked_payload)"

section \<open>Values, exceptions and the connection\<close>

text \<open>
  A parsed JSON document, as \<open>json.loads\<close> returns it. \<open>JNull\<close> is Python's
  \<open>None\<close>. A \<open>str\<close> is kept as its UTF-8 octets, one \<open>char\<close> each; the octet-wise
  lexicographic order of UTF-8 texts is the code point order Python compares by. An
  object is the association list of a \<open>dict\<close>: each key once, in insertion order. A
  finite float is \<open>m * 2 ^ e\<close>.
\<close>

datatype pyfloat = Finite int int | NotFinite

datatype json =
    JNull
  | JBool bool
  | JInt int
  | JFloat pyfloat
  | JStr string
  | JArr "json list"
  | JObj "(string \<times> json) list"

datatype exn =
    IncompleteReadError
  | ConnectionResetError
  | UnicodeDecodeError
  | JSONDecodeError
  | AttributeError
  | TypeError
  | KeyError
  | ValueError
  | IndexError
  | URLError
  | RuntimeError string

text \<open>
  What the program takes from Python's library and from the operating system, none of
  it code of this repository: \<open>json.dumps(x).encode()\<close>, \<open>json.loads\<close> on a decoded
  text (\<open>None\<close> when it raises \<open>JSONDecodeError\<close>), the octets that the \<open>k\<close>-th call
  of \<open>os.urandom(4)\<close> returns, \<open>str()\<close> of a value inside an f-string, and \<open>int()\<close>
  of a \<open>str\<close> (\<open>None\<close> when it raises \<open>ValueError\<close>).
\<close>

record lib =
  json_dumps :: "json \<Rightarrow> byte list"
  json_loads :: "byte list \<Rightarrow> json option"
  urandom4 :: "nat \<Rightarrow> mask4"
  py_str :: "json \<Rightarrow> string"
  py_int :: "string \<Rightarrow> int option"

text \<open>
  A \<open>DeckyClient\<close> after \<open>connect\<close> has returned. \<open>rd\<close> holds the octets the server
  sends from then on, in order, and \<open>rd_end\<close> says how the stream ends once they are
  used up: a clean end of file, or a lost connection. \<open>wr\<close> is what was handed to
  \<open>writer.write\<close>, one entry per call, oldest first; the writer takes every write.
  \<open>drawn\<close> counts the calls of \<open>os.urandom\<close>, and \<open>stderr\<close> is what \<open>log\<close> printed.
  \<open>DeckyClient\<close> is the object as \<open>__init__\<close> and a successful \<open>get_token\<close> and
  \<open>connect\<close> leave it: the counter at 0, nothing written since the handshake. Every
  stream here ends; a server that keeps the connection open and sends nothing more,
  on which \<open>readexactly\<close> would wait without returning, is not among them.
\<close>

datatype ending = EndOfFile | ConnectionLost

datatype log_entry = Line string | ErrorLine exn

record client =
  msg_id :: int
  rd :: "byte list"
  rd_end :: ending
  wr :: "byte list list"
  wr_closed :: bool
  drawn :: nat
  stderr :: "log_entry list"

definition DeckyClient :: "byte list \<Rightarrow> ending \<Rightarrow> client" where
  "DeckyClient incoming e =
     \<lparr>msg_id = 0, rd = incoming, rd_end = e, wr = [], wr_closed = False,
      drawn = 0, stderr = []\<rparr>"

text \<open>
  \<open>log(...)\<close> appends one line; \<open>log(f"Error: {e}")\<close> is kept as the exception it
  prints.
\<close>

definition log :: "string \<Rightarrow> client \<Rightarrow> client" where
  "log line c = c\<lparr>stderr := stderr c @ [Line line]\<rparr>"

definition log_error :: "exn \<Rightarrow> client \<Rightarrow> client" where
  "log_error e c = c\<lparr>stderr := stderr c @ [ErrorLine e]\<rparr>"

text \<open>Sequencing of steps that may raise: the first exception ends the block.\<close>

definition ret :: "'a \<Rightarrow> client \<Rightarrow> (exn + 'a) \<times> client" where
  "ret x c = (Inr x, c)"

definition raise :: "exn \<Rightarrow> client \<Rightarrow> (exn + 'a) \<times> client" where
  "raise e c = (Inl e, c)"

definition andthen ::
  "(client \<Rightarrow> (exn + 'a) \<times> client) \<Rightarrow> ('a \<Rightarrow> client \<Rightarrow> (exn + 'b) \<times> client)
     \<Rightarrow> client \<Rightarrow> (exn + 'b) \<times> client" where
  "andthen m f c = (case m c of (Inl e, c') \<Rightarrow> (Inl e, c') | (Inr x, c') \<Rightarrow> f x c')"

text \<open>
  \<open>StreamReader.readexactly(n)\<close>: the next \<open>n\<close> octets, once they have all arrived. When
  the stream ends first it raises \<open>IncompleteReadError\<close> at a clean end of file, dropping
  what it had buffered, and a \<open>ConnectionError\<close> when the connection was lost.
\<close>

definition readexactly :: "nat \<Rightarrow> client \<Rightarrow> (exn + byte list) \<times> client" where
  "readexactly n c =
     (if n \<le> length (rd c) then (Inr (take n (rd c)), c\<lparr>rd := drop n (rd c)\<rparr>)
      else (case rd_end c of
              EndOfFile \<Rightarrow> (Inl IncompleteReadError, c\<lparr>rd := []\<rparr>)
            | ConnectionLost \<Rightarrow> (Inl ConnectionResetError, c)))"

section \<open>DeckyClient.send, recv and close\<close>

definition CALL :: int where "CALL = 0"

definition REPLY :: int where "REPLY = 1"

definition ERROR :: int where "ERROR = - 1"

definition EVENT :: int where "EVENT = 3"

definition message_dict :: "int \<Rightarrow> int \<Rightarrow> string \<Rightarrow> json list \<Rightarrow> json" where
  "message_dict msg_type ident method args =
     JObj [(''type'', JInt msg_type), (''id'', JInt ident),
           (''route'', JStr method), (''args'', JArr args)]"

definition send :: "lib \<Rightarrow> int \<Rightarrow> string \<Rightarrow> json list \<Rightarrow> client \<Rightarrow> client" where
  "send L msg_type method args c =
     (let c = c\<lparr>msg_id := msg_id c + 1\<rparr>;
          payload = json_dumps L (message_dict msg_type (msg_id c) method args);
          mask' = urandom4 L (drawn c);
          c = c\<lparr>drawn := drawn c + 1\<rparr>
      in c\<lparr>wr := wr c @ [text_frame mask' payload]\<rparr>)"

text \<open>
  Lines 115 to 133 of \<open>recv\<close>: the octets of one frame's payload. The opcode in
  \<open>head[0]\<close> is not looked at.
\<close>

definition read_frame :: "client \<Rightarrow> (exn + byte list) \<times> client" where
  "read_frame =
     andthen (readexactly 2) (\<lambda>head.
       let has_mask = head ! 1 AND 0x80;
           len7 = head ! 1 AND 0x7F
       in andthen (if len7 = 126 then
                     andthen (readexactly 2) (\<lambda>ext_len. ret (unpack_be ext_len))
                   else if len7 = 127 then
                     andthen (readexactly 8) (\<lambda>ext_len. ret (unpack_be ext_len))
                   else ret (unat len7)) (\<lambda>len.
          andthen (if has_mask \<noteq> 0 then readexactly 4 else ret []) (\<lambda>mask'.
          andthen (readexactly len) (\<lambda>payload_raw.
          ret (if has_mask \<noteq> 0 then xor_mask mask' payload_raw else payload_raw)))))"

text \<open>
  \<open>bytes.decode()\<close> is the strict UTF-8 decoder: it raises \<open>UnicodeDecodeError\<close> on
  anything but well-formed UTF-8 (no overlong forms, no surrogates, nothing above
  U+10FFFF).
\<close>

definition is_cont :: "byte \<Rightarrow> bool" where
  "is_cont b \<longleftrightarrow> 0x80 \<le> b \<and> b \<le> 0xBF"

fun utf8_valid :: "byte list \<Rightarrow> bool" where
  "utf8_valid [] = True"
| "utf8_valid (b # bs) =
     (if b < 0x80 then utf8_valid bs
      else if 0xC2 \<le> b \<and> b \<le> 0xDF then
        (case bs of c1 # r \<Rightarrow> is_cont c1 \<and> utf8_valid r | _ \<Rightarrow> False)
      else if 0xE0 \<le> b \<and> b \<le> 0xEF then
        (case bs of c1 # c2 # r \<Rightarrow>
           is_cont c1 \<and> (if b = 0xE0 then 0xA0 \<le> c1 else True)
           \<and> (if b = 0xED then c1 \<le> 0x9F else True)
           \<and> is_cont c2 \<and> utf8_valid r
         | _ \<Rightarrow> False)
      else if 0xF0 \<le> b \<and> b \<le> 0xF4 then
        (case bs of c1 # c2 # c3 # r \<Rightarrow>
           is_cont c1 \<and> (if b = 0xF0 then 0x90 \<le> c1 else True)
           \<and> (if b = 0xF4 then c1 \<le> 0x8F else True)
           \<and> is_cont c2 \<and> is_cont c3 \<and> utf8_valid r
         | _ \<Rightarrow> False)
      else False)"

text \<open>
  Line 135, \<open>json.loads(payload_raw.decode())\<close>. Both steps raise a \<open>ValueError\<close>,
  which the \<open>except\<close> clause of \<open>recv\<close> does not catch.
\<close>

definition loads_decode :: "lib \<Rightarrow> byte list \<Rightarrow> client \<Rightarrow> (exn + json) \<times> client" where
  "loads_decode L payload_raw =
     (if \<not> utf8_valid payload_raw then raise UnicodeDecodeError
      else (case json_loads L payload_raw of
              None \<Rightarrow> raise JSONDecodeError
            | Some v \<Rightarrow> ret v))"

text \<open>
  \<open>recv\<close>: the \<open>try\<close> block, and the \<open>except\<close> clause that turns
  \<open>IncompleteReadError\<close> and \<open>ConnectionError\<close> into the return value \<open>None\<close>.
\<close>

definition recv :: "lib \<Rightarrow> client \<Rightarrow> (exn + json) \<times> client" where
  "recv L c =
     (case andthen read_frame (loads_decode L) c of
        (Inl e, c') \<Rightarrow>
          (if e = IncompleteReadError \<or> e = ConnectionResetError then (Inr JNull, c')
           else (Inl e, c'))
      | (Inr v, c') \<Rightarrow> (Inr v, c'))"

text \<open>
  \<open>close\<close> on a connected client. In the \<open>try\<close> block the Close frame is handed to
  the writer; what \<open>write\<close> and \<open>drain\<close> raise there is dropped by the \<open>except\<close>
  clause. The \<open>finally\<close> clause closes the writer and awaits \<open>wait_closed()\<close>, which
  is outside the \<open>except\<close>: on a connection that the server has reset it raises
  \<open>ConnectionResetError\<close>, and \<open>close\<close> raises it. A stream that ends with
  \<open>ConnectionLost\<close> has been reset by the time the client closes.
\<close>

definition close :: "lib \<Rightarrow> client \<Rightarrow> (exn + unit) \<times> client" where
  "close L c =
     (let mask' = urandom4 L (drawn c);
          c = c\<lparr>drawn := drawn c + 1\<rparr>;
          c = c\<lparr>wr := wr c @ [close_frame mask']\<rparr>;
          c = c\<lparr>wr_closed := True\<rparr>
      in case rd_end c of
           EndOfFile \<Rightarrow> (Inr (), c)
         | ConnectionLost \<Rightarrow> (Inl ConnectionResetError, c))"

text \<open>
  \<open>finally: await client.close()\<close> after a block with the outcome \<open>r\<close>: the outcome
  stands when \<open>close\<close> returns, and what \<open>close\<close> raises replaces it.
\<close>

definition finally_close :: "lib \<Rightarrow> (exn + 'a) \<times> client \<Rightarrow> (exn + 'a) \<times> client" where
  "finally_close L r =
     (case r of
        (outcome, c) \<Rightarrow>
          (case close L c of
             (Inl x, c') \<Rightarrow> (Inl x, c')
           | (Inr u, c') \<Rightarrow> (outcome, c')))"

section \<open>Python operations on parsed values\<close>

text \<open>
  \<open>d.get(k)\<close> on a \<open>dict\<close> gives \<open>None\<close> for a missing key; \<open>d.get(k, default)\<close>
  gives the default. \<open>x == n\<close> with an integer constant holds for the integer, for the
  float of that value and for \<open>True\<close> and \<open>False\<close> as 1 and 0.
\<close>

definition dict_get :: "(string \<times> json) list \<Rightarrow> string \<Rightarrow> json" where
  "dict_get d k = (case map_of d k of None \<Rightarrow> JNull | Some v \<Rightarrow> v)"

definition dict_get_default :: "(string \<times> json) list \<Rightarrow> string \<Rightarrow> json \<Rightarrow> json" where
  "dict_get_default d k dflt = (case map_of d k of None \<Rightarrow> dflt | Some v \<Rightarrow> v)"

fun py_eq_int :: "json \<Rightarrow> int \<Rightarrow> bool" where
  "py_eq_int (JInt n) k = (n = k)"
| "py_eq_int (JBool b) k = ((if b then 1 else 0) = k)"
| "py_eq_int (JFloat (Finite m e)) k =
     (if 0 \<le> e then m * 2 ^ nat e = k else m = k * 2 ^ nat (- e))"
| "py_eq_int _ k = False"

fun py_eq_str :: "json \<Rightarrow> string \<Rightarrow> bool" where
  "py_eq_str (JStr s) t = (s = t)"
| "py_eq_str _ t = False"

text \<open>
  The code points of a \<open>str\<close>: each octet that is not a continuation octet starts one.
\<close>

definition cont_char :: "char \<Rightarrow> bool" where
  "cont_char ch = is_cont (of_char ch)"

function utf8_chars :: "string \<Rightarrow> string list" where
  "utf8_chars [] = []"
| "utf8_chars (ch # s) = (ch # takeWhile cont_char s) # utf8_chars (dropWhile cont_char s)"
  by pat_completeness auto

termination
  by (relation "measure length") (auto simp: length_dropWhile_le less_Suc_eq_le)

text \<open>
  \<open>len(x)\<close> and \<open>x[i]\<close> for the values \<open>msg.get("args", [])\<close> can be. A \<open>dict\<close> from
  JSON has only \<open>str\<close> keys, so an integer subscript raises \<open>KeyError\<close>.
\<close>

fun py_len :: "json \<Rightarrow> exn + nat" where
  "py_len (JArr xs) = Inr (length xs)"
| "py_len (JStr s) = Inr (length (utf8_chars s))"
| "py_len (JObj d) = Inr (length d)"
| "py_len _ = Inl TypeError"

fun py_index :: "json \<Rightarrow> nat \<Rightarrow> exn + json" where
  "py_index (JArr xs) i = (if i < length xs then Inr (xs ! i) else Inl IndexError)"
| "py_index (JStr s) i =
     (if i < length (utf8_chars s) then Inr (JStr (utf8_chars s ! i)) else Inl IndexError)"
| "py_index (JObj d) i = Inl KeyError"
| "py_index _ i = Inl TypeError"

definition lift :: "exn + 'a \<Rightarrow> client \<Rightarrow> (exn + 'a) \<times> client" where
  "lift r c = (r, c)"

section \<open>The plugin catalog\<close>

text \<open>
  The store document, already fetched and parsed, at the shape the store serves: a list
  of plugin records with an \<open>id\<close> that is an integer or a text, an optional
  \<open>name\<close>, and \<open>versions\<close>, each with optional texts \<open>name\<close>, \<open>artifact\<close> and
  \<open>hash\<close>. \<open>x or dflt\<close> takes the default for a missing or empty text. A document
  of another shape makes the source raise where it first uses the odd part (\<open>.get\<close>
  on a value that is no \<open>dict\<close>, \<open>int(None)\<close>, a comparison of a \<open>str\<close> with a
  number inside \<open>sorted\<close>); such documents are not among the values of these types.
\<close>

datatype plugin_id = IdInt int | IdStr string

record version =
  v_name :: "string option"
  v_artifact :: "string option"
  v_hash :: "string option"

record plugin =
  p_id :: plugin_id
  p_name :: "string option"
  p_versions :: "version list option"

fun or_str :: "string option \<Rightarrow> string \<Rightarrow> string" where
  "or_str None dflt = dflt"
| "or_str (Some s) dflt = (if s = [] then dflt else s)"

fun or_list :: "'a list option \<Rightarrow> 'a list" where
  "or_list None = []"
| "or_list (Some xs) = xs"

text \<open>\<open>int(p.get("id"))\<close>.\<close>

fun int_of_id :: "lib \<Rightarrow> plugin_id \<Rightarrow> exn + int" where
  "int_of_id L (IdInt n) = Inr n"
| "int_of_id L (IdStr s) = (case py_int L s of None \<Rightarrow> Inl ValueError | Some n \<Rightarrow> Inr n)"

text \<open>
  Line 174, \<open>next((p for p in plugins if int(p.get("id")) == int(target_id)), None)\<close>:
  the generator stops at the first match, and an \<open>id\<close> that \<open>int()\<close> rejects before
  that raises.
\<close>

fun find_target :: "lib \<Rightarrow> int \<Rightarrow> plugin list \<Rightarrow> exn + plugin option" where
  "find_target L target_id [] = Inr None"
| "find_target L target_id (p # ps) =
     (case int_of_id L (p_id p) of
        Inl e \<Rightarrow> Inl e
      | Inr n \<Rightarrow> if n = target_id then Inr (Some p) else find_target L target_id ps)"

text \<open>
  Line 183, \<open>sorted(versions, key=lambda v: (v.get("name") or ""))[-1]\<close>. Python's
  \<open>sorted\<close> is stable and compares \<open>str\<close> keys code point by code point; so does
  \<open>sort_key\<close> on the octets.
\<close>

definition version_key :: "version \<Rightarrow> string" where
  "version_key v = or_str (v_name v) ''''"

definition latest_version :: "version list \<Rightarrow> version" where
  "latest_version versions = last (sort_key version_key versions)"

section \<open>The install flow\<close>

datatype step = Again | Stop bool

text \<open>
  One pass through the body of \<open>while True\<close> (lines 195 to 221): \<open>Stop success\<close> is a
  \<open>break\<close> with the value \<open>success\<close> has then, \<open>Again\<close> the next iteration.
\<close>

definition loop_body :: "lib \<Rightarrow> client \<Rightarrow> (exn + step) \<times> client" where
  "loop_body L =
     andthen (recv L) (\<lambda>msg.
       case msg of
         JNull \<Rightarrow> (\<lambda>c. ret (Stop False) (log ''Connection closed by server.'' c))
       | JObj d \<Rightarrow>
           (let m_type = dict_get d ''type'' in
            if py_eq_int m_type EVENT
               \<and> py_eq_str (dict_get d ''event'') ''loader/add_plugin_install_prompt''
            then
              (let m_args = dict_get_default d ''args'' (JArr []) in
               andthen (lift (py_len m_args)) (\<lambda>n.
                 if n < 3 then
                   (\<lambda>c. ret Again (log (''Invalid install prompt args: '' @ py_str L m_args) c))
                 else
                   andthen (lift (py_index m_args 2)) (\<lambda>request_id c.
                     ret Again
                       (send L CALL ''utilities/confirm_plugin_install'' [request_id]
                          (log ''Prompt received, sending confirmation...'' c)))))
            else if py_eq_int m_type EVENT
               \<and> py_eq_str (dict_get d ''event'') ''loader/plugin_download_finish''
            then
              (\<lambda>c. ret (Stop True)
                 (log (''Installation successful: '' @ py_str L (dict_get d ''args'')) c))
            else if py_eq_int m_type REPLY then
              (\<lambda>c. ret Again (log (''Server reply: '' @ py_str L (dict_get d ''result'')) c))
            else if py_eq_int m_type ERROR then
              (\<lambda>c. ret Again (log (''Server error: '' @ py_str L (dict_get d ''error'')) c))
            else ret Again)
       | _ \<Rightarrow> raise AttributeError)"

text \<open>
  Lines 194 to 221, \<open>while True\<close>: the value is \<open>success\<close> after the loop. An
  iteration that goes on has read a whole frame, of two octets at least, so the loop
  ends on every stream that ends.
\<close>

function install_loop :: "lib \<Rightarrow> client \<Rightarrow> (exn + bool) \<times> client" where
  "install_loop L c =
     (case loop_body L c of
        (Inl e, c') \<Rightarrow> (Inl e, c')
      | (Inr (Stop success), c') \<Rightarrow> (Inr success, c')
      | (Inr Again, c') \<Rightarrow> install_loop L c')"
  by pat_completeness auto
termination
proof (relation "measure (\<lambda>(L, c). length (rd c))")
  show "wf (measure (\<lambda>(L, c). length (rd c)))"
    by simp
next
  fix L c x c' b
  assume body: "(x, c') = loop_body L c" and x: "x = Inr b" and b: "b = Again"
  have frame: "length (rd c2) + 2 \<le> length (rd c1)" if "read_frame c1 = (Inr p, c2)" for c1 c2 p
    using that unfolding read_frame_def andthen_def readexactly_def ret_def Let_def
    by (auto split: if_splits ending.splits)
  obtain r c1 where r: "recv L c = (r, c1)"
    by (cases "recv L c")
  from body x b r obtain msg where m: "r = Inr msg"
    by (cases r) (auto simp: loop_body_def andthen_def)
  from body x b r m have nn: "msg \<noteq> JNull"
    by (auto simp: loop_body_def andthen_def ret_def)
  obtain q c0 where q: "read_frame c = (q, c0)"
    by (cases "read_frame c")
  from r m nn q obtain p where p: "q = Inr p" and c1: "c1 = c0"
    by (cases q)
      (auto simp: recv_def andthen_def loads_decode_def raise_def ret_def
        split: if_splits option.splits)
  from frame q p c1 have "length (rd c1) < length (rd c)"
    by fastforce
  moreover from body x b r m have "rd c' = rd c1"
    by (auto simp: loop_body_def andthen_def ret_def raise_def lift_def Let_def log_def send_def
        split: json.splits if_splits sum.splits)
  ultimately show "((L, c'), (L, c)) \<in> measure (\<lambda>(L, c). length (rd c))"
    by simp
qed

declare install_loop.simps [simp del]

text \<open>
  The \<open>try\<close> block of \<open>run_installer\<close> from line 166 on, for a run whose token fetch and
  handshake went through. \<open>store\<close> is the outcome of lines 171 to 173, the parsed store
  document or the exception of the fetch.
\<close>

definition install_try ::
  "lib \<Rightarrow> int \<Rightarrow> exn + plugin list \<Rightarrow> client \<Rightarrow> (exn + bool) \<times> client" where
  "install_try L target_id store c =
     andthen (lift store) (\<lambda>plugins.
     andthen (lift (find_target L target_id plugins)) (\<lambda>target.
       case target of
         None \<Rightarrow>
           raise (RuntimeError (''plugin id '' @ py_str L (JInt target_id) @ '' not found''))
       | Some target \<Rightarrow>
           (let plugin_name = or_str (p_name target) (''plugin-'' @ py_str L (JInt target_id));
                versions = or_list (p_versions target)
            in if versions = [] then raise (RuntimeError ''store entry missing versions'')
               else
                 (let latest = latest_version versions;
                      version_name = or_str (v_name latest) ''dev'';
                      artifact_url = or_str (v_artifact latest) '''';
                      hash' = or_str (v_hash latest) ''''
                  in if artifact_url = [] then
                       raise (RuntimeError ''latest version missing artifact URL'')
                     else
                       (\<lambda>c. install_loop L
                          (send L CALL ''utilities/install_plugin''
                             [JStr artifact_url, JStr plugin_name, JStr version_name,
                              JStr hash', JInt 0]
                             (log (''Installing '' @ plugin_name @ '' v'' @ version_name) c)))))))
       (log (''Connection established. Fetching plugin metadata for ID: ''
               @ py_str L (JInt target_id))
          (log ''Contacting Mock Server at 127.0.0.1:1337...'' c))"

text \<open>
  \<open>run_installer\<close>: the \<open>except\<close> clause logs and keeps the exception, \<open>finally\<close>
  closes the client, and when \<open>close\<close> has returned lines 229 to 232 raise or return.
\<close>

definition run_installer ::
  "lib \<Rightarrow> int \<Rightarrow> exn + plugin list \<Rightarrow> byte list \<Rightarrow> ending \<Rightarrow> (exn + unit) \<times> client" where
  "run_installer L target_id store incoming e =
     (let client = DeckyClient incoming e
      in case finally_close L
                (case install_try L target_id store client of
                   (Inl error, c) \<Rightarrow> (Inl error, log_error error c)
                 | (Inr success, c) \<Rightarrow> (Inr success, c)) of
           (Inl error, c) \<Rightarrow> (Inl error, c)
         | (Inr success, c) \<Rightarrow>
             (if \<not> success then
                (Inl (RuntimeError ''Installation did not complete successfully''), c)
              else (Inr (), c)))"

section \<open>The settings flows\<close>

definition DEFAULT_STORE_URL :: string where
  "DEFAULT_STORE_URL = ''https://plugins.deckbrew.xyz/plugins''"

text \<open>
  The \<open>try\<close> block of \<open>configure_store_url\<close>, lines 239 to 257; then the flow, whose
  \<open>except\<close> clause logs and raises again and whose \<open>finally\<close> clause closes the client.
\<close>

definition configure_try :: "lib \<Rightarrow> string \<Rightarrow> client \<Rightarrow> (exn + unit) \<times> client" where
  "configure_try L store_url c =
     andthen (recv L) (\<lambda>msg.
       case msg of
         JNull \<Rightarrow> raise (RuntimeError ''Connection closed by server'')
       | JObj d \<Rightarrow>
           (let m_type = dict_get d ''type'' in
            if py_eq_int m_type REPLY then
              (\<lambda>c. ret ()
                 (log (''Store URL configured successfully: '' @ py_str L (dict_get d ''result''))
                    c))
            else if py_eq_int m_type ERROR then
              (\<lambda>c. raise
                 (RuntimeError (''Failed to set store URL: '' @ py_str L (dict_get d ''error'')))
                 (log (''Server error: '' @ py_str L (dict_get d ''error'')) c))
            else ret ())
       | _ \<Rightarrow> raise AttributeError)
       (send L CALL ''utilities/settings/set'' [JStr ''store_url'', JStr store_url]
          (log (''Setting custom store URL: '' @ store_url)
             (log ''Connecting to Decky server at 127.0.0.1:1337...'' c)))"

definition configure_store_url ::
  "lib \<Rightarrow> string \<Rightarrow> byte list \<Rightarrow> ending \<Rightarrow> (exn + unit) \<times> client" where
  "configure_store_url L store_url incoming e =
     (let client = DeckyClient incoming e
      in finally_close L
           (case configure_try L store_url client of
              (Inl error, c) \<Rightarrow> (Inl error, log_error error c)
            | (Inr u, c) \<Rightarrow> (Inr u, c)))"

text \<open>The \<open>try\<close> block of \<open>get_store_url\<close>, lines 270 to 292.\<close>

definition get_try :: "lib \<Rightarrow> client \<Rightarrow> (exn + json) \<times> client" where
  "get_try L c =
     andthen (recv L) (\<lambda>msg.
       case msg of
         JNull \<Rightarrow> raise (RuntimeError ''Connection closed by server'')
       | JObj d \<Rightarrow>
           (let m_type = dict_get d ''type'' in
            if py_eq_int m_type REPLY then
              (let store_url = dict_get d ''result''
               in (\<lambda>c. ret store_url (log (''Current store URL: '' @ py_str L store_url) c)))
            else if py_eq_int m_type ERROR then
              (\<lambda>c. raise
                 (RuntimeError (''Failed to get store URL: '' @ py_str L (dict_get d ''error'')))
                 (log (''Server error: '' @ py_str L (dict_get d ''error'')) c))
            else raise (RuntimeError ''Unexpected response type''))
       | _ \<Rightarrow> raise AttributeError)
       (send L CALL ''utilities/settings/get'' [JStr ''store_url'', JStr DEFAULT_STORE_URL]
          (log ''Getting configured store URL...''
             (log ''Connecting to Decky server at 127.0.0.1:1337...'' c)))"

definition get_store_url :: "lib \<Rightarrow> byte list \<Rightarrow> ending \<Rightarrow> (exn + json) \<times> client" where
  "get_store_url L incoming e =
     (let client = DeckyClient incoming e
      in finally_close L
           (case get_try L client of
              (Inl error, c) \<Rightarrow> (Inl error, log_error error c)
            | (Inr store_url, c) \<Rightarrow> (Inr store_url, c)))"

section \<open>Definitions for the reasoning\<close>

text \<open>After its two header octets, \<open>read_frame\<close> goes on from the second one alone.\<close>

definition after_head :: "byte \<Rightarrow> client \<Rightarrow> (exn + byte list) \<times> client" where
  "after_head b1 =
     (let has_mask = b1 AND 0x80;
          len7 = b1 AND 0x7F
      in andthen (if len7 = 126 then
                    andthen (readexactly 2) (\<lambda>ext_len. ret (unpack_be ext_len))
                  else if len7 = 127 then
                    andthen (readexactly 8) (\<lambda>ext_len. ret (unpack_be ext_len))
                  else ret (unat len7)) (\<lambda>len.
         andthen (if has_mask \<noteq> 0 then readexactly 4 else ret []) (\<lambda>mask'.
         andthen (readexactly len) (\<lambda>payload_raw.
         ret (if has_mask \<noteq> 0 then xor_mask mask' payload_raw else payload_raw)))))"

text \<open>
  For the reasoning below: the sizes \<open>read_frame\<close> derives from what it has read so far.
  \<open>frame_need bs\<close> is the number of octets the stream \<open>bs\<close> must hold for the next
  \<open>readexactly\<close> that \<open>read_frame\<close> reaches to return, and the size of the whole frame
  once the header is there.
\<close>

definition ext_size :: "byte \<Rightarrow> nat" where
  "ext_size b1 = (if b1 AND 0x7F = 126 then 2 else if b1 AND 0x7F = 127 then 8 else 0)"

definition mask_size :: "byte \<Rightarrow> nat" where
  "mask_size b1 = (if b1 AND 0x80 \<noteq> 0 then 4 else 0)"

definition declared_len :: "byte \<Rightarrow> byte list \<Rightarrow> nat" where
  "declared_len b1 t =
     (if b1 AND 0x7F = 126 then unpack_be (take 2 t)
      else if b1 AND 0x7F = 127 then unpack_be (take 8 t)
      else unat (b1 AND 0x7F))"

definition frame_need :: "byte list \<Rightarrow> nat" where
  "frame_need bs =
     (if length bs < 2 then 2
      else if length bs < 2 + ext_size (bs ! 1) then 2 + ext_size (bs ! 1)
      else if length bs < 2 + ext_size (bs ! 1) + mask_size (bs ! 1)
        then 2 + ext_size (bs ! 1) + mask_size (bs ! 1)
      else 2 + ext_size (bs ! 1) + mask_size (bs ! 1) + declared_len (bs ! 1) (drop 2 bs))"

definition frame_payload :: "byte list \<Rightarrow> byte list" where
  "frame_payload bs =
     (let b1 = bs ! 1;
          t = drop (2 + ext_size b1) bs;
          raw = take (declared_len b1 (drop 2 bs)) (drop (mask_size b1) t)
      in if b1 AND 0x80 \<noteq> 0 then xor_mask (take 4 t) raw else raw)"

definition end_exn :: "ending \<Rightarrow> exn" where
  "end_exn e = (case e of EndOfFile \<Rightarrow> IncompleteReadError | ConnectionLost \<Rightarrow> ConnectionResetError)"

text \<open>Consecutive calls of \<open>send\<close> on one client, for stating C7.\<close>

fun send_all :: "lib \<Rightarrow> (int \<times> string \<times> json list) list \<Rightarrow> client \<Rightarrow> client" where
  "send_all L [] c = c"
| "send_all L ((msg_type, method, args) # calls) c = send_all L calls (send L msg_type method args c)"

text \<open>The client as \<open>get_store_url\<close> has it at line 278, when it calls \<open>recv\<close>.\<close>

definition get_request :: "lib \<Rightarrow> byte list \<Rightarrow> ending \<Rightarrow> client" where
  "get_request L incoming e =
     send L CALL ''utilities/settings/get'' [JStr ''store_url'', JStr DEFAULT_STORE_URL]
       (log ''Getting configured store URL...''
          (log ''Connecting to Decky server at 127.0.0.1:1337...'' (DeckyClient incoming e)))"

text \<open>The client as \<open>configure_store_url\<close> has it at line 247, when it calls \<open>recv\<close>.\<close>

definition configure_request :: "lib \<Rightarrow> string \<Rightarrow> byte list \<Rightarrow> ending \<Rightarrow> client" where
  "configure_request L store_url incoming e =
     send L CALL ''utilities/settings/set'' [JStr ''store_url'', JStr store_url]
       (log (''Setting custom store URL: '' @ store_url)
          (log ''Connecting to Decky server at 127.0.0.1:1337...'' (DeckyClient incoming e)))"


text \<open>The client that \<open>close\<close> leaves, whether it returns or raises.\<close>

definition closed :: "lib \<Rightarrow> client \<Rightarrow> client" where
  "closed L c = snd (close L c)"

text \<open>Lines 223 to 232 of \<open>run_installer\<close>, applied to the outcome of the \<open>try\<close> block.\<close>

definition after_loop :: "lib \<Rightarrow> (exn + bool) \<times> client \<Rightarrow> (exn + unit) \<times> client" where
  "after_loop L r =
     (case finally_close L
             (case r of
                (Inl error, c) \<Rightarrow> (Inl error, log_error error c)
              | (Inr success, c) \<Rightarrow> (Inr success, c)) of
        (Inl error, c) \<Rightarrow> (Inl error, c)
      | (Inr success, c) \<Rightarrow>
          (if \<not> success then
             (Inl (RuntimeError ''Installation did not complete successfully''), c)
           else (Inr (), c)))"

section \<open>A library instance and a catalog for the examples\<close>

text \<open>
  The examples that follow the claims run the program against a small stand-in for the
  library. \<open>sample_dumps\<close> writes a value as \<open>json.dumps\<close> does, with its separators
  \<open>", "\<close> and \<open>": "\<close>, for the values the examples send: integers, lists, objects and
  texts of printable ASCII. \<open>sample_loads\<close> parses the texts of its table to the values
  \<open>json.loads\<close> gives for them; the examples use it besides only on the text of one
  opening brace, which is no JSON text. \<open>sample_str\<close> is \<open>str()\<close> for \<open>None\<close>,
  booleans, integers and texts; what it gives for other values appears in no example.
\<close>

definition ascii :: "string \<Rightarrow> byte list" where
  "ascii s = map of_char s"

fun digits :: "nat \<Rightarrow> nat \<Rightarrow> string" where
  "digits 0 n = []"
| "digits (Suc fuel) n =
     (if n < 10 then [''0123456789'' ! n]
      else digits fuel (n div 10) @ [''0123456789'' ! (n mod 10)])"

definition str_int :: "int \<Rightarrow> string" where
  "str_int i = (if i < 0 then ''-'' @ digits (Suc (nat (- i))) (nat (- i))
                else digits (Suc (nat i)) (nat i))"

definition quoted :: "string \<Rightarrow> string" where
  "quoted s =
     [CHR 0x22]
     @ concat (map (\<lambda>ch. if ch = CHR 0x22 \<or> ch = CHR 0x5C then [CHR 0x5C, ch] else [ch]) s)
     @ [CHR 0x22]"

fun join :: "string list \<Rightarrow> string" where
  "join [] = []"
| "join [x] = x"
| "join (x # y # r) = x @ '', '' @ join (y # r)"

fun sample_dumps :: "json \<Rightarrow> string" where
  "sample_dumps JNull = ''null''"
| "sample_dumps (JBool b) = (if b then ''true'' else ''false'')"
| "sample_dumps (JInt n) = str_int n"
| "sample_dumps (JFloat f) = ''NaN''"
| "sample_dumps (JStr s) = quoted s"
| "sample_dumps (JArr xs) = ''['' @ join (map sample_dumps xs) @ '']''"
| "sample_dumps (JObj d) =
     ''{'' @ join (map (\<lambda>kv. quoted (fst kv) @ '': '' @ sample_dumps (snd kv)) d) @ ''}''"

definition sample_str :: "json \<Rightarrow> string" where
  "sample_str v =
     (case v of
        JNull \<Rightarrow> ''None''
      | JBool b \<Rightarrow> (if b then ''True'' else ''False'')
      | JInt n \<Rightarrow> str_int n
      | JStr s \<Rightarrow> s
      | _ \<Rightarrow> ''?'')"

definition reply_text :: "byte list" where
  \<open>reply_text = ascii ''{"type":1,"result":"u"}''\<close>

definition error_text :: "byte list" where
  \<open>error_text = ascii ''{"type":-1,"error":"no"}''\<close>

definition prompt_text :: "byte list" where
  \<open>prompt_text =
     ascii ''{"type":3,"event":"loader/add_plugin_install_prompt","args":["n","v","r7"]}''\<close>

definition short_prompt_text :: "byte list" where
  \<open>short_prompt_text =
     ascii ''{"type":3,"event":"loader/add_plugin_install_prompt","args":["n"]}''\<close>

definition finish_text :: "byte list" where
  \<open>finish_text = ascii ''{"type":3,"event":"loader/plugin_download_finish","args":[]}''\<close>

definition other_text :: "byte list" where
  \<open>other_text = ascii ''{"type":3,"event":"x"}''\<close>

definition sample_loads :: "byte list \<Rightarrow> json option" where
  "sample_loads = map_of
     [(reply_text, JObj [(''type'', JInt 1), (''result'', JStr ''u'')]),
      (error_text, JObj [(''type'', JInt (- 1)), (''error'', JStr ''no'')]),
      (prompt_text,
       JObj [(''type'', JInt 3), (''event'', JStr ''loader/add_plugin_install_prompt''),
             (''args'', JArr [JStr ''n'', JStr ''v'', JStr ''r7''])]),
      (short_prompt_text,
       JObj [(''type'', JInt 3), (''event'', JStr ''loader/add_plugin_install_prompt''),
             (''args'', JArr [JStr ''n''])]),
      (finish_text,
       JObj [(''type'', JInt 3), (''event'', JStr ''loader/plugin_download_finish''),
             (''args'', JArr [])]),
      (other_text, JObj [(''type'', JInt 3), (''event'', JStr ''x'')]),
      ([0x0D, 0x30], JInt 0),
      ([0x7B, 0x7D], JObj [])]"

definition sample_lib :: lib where
  "sample_lib =
     \<lparr>json_dumps = (\<lambda>v. ascii (sample_dumps v)),
      json_loads = sample_loads,
      urandom4 = (\<lambda>k. (of_nat k, 2, 3, 4)),
      py_str = sample_str,
      py_int = (\<lambda>s. None)\<rparr>"

text \<open>The payloads of the Calls in the examples, as \<open>json.dumps\<close> writes them.\<close>

definition install_call_text :: "byte list" where
  \<open>install_call_text =
     ascii (''{"type": 0, "id": 1, "route": "utilities/install_plugin", ''
            @ ''"args": ["http://x/a9.zip", "demo", "1.9.0", "h9", 0]}'')\<close>

definition confirm_call_text :: "byte list" where
  \<open>confirm_call_text =
     ascii ''{"type": 0, "id": 2, "route": "utilities/confirm_plugin_install", "args": ["r7"]}''\<close>

definition get_call_text :: "byte list" where
  \<open>get_call_text =
     ascii (''{"type": 0, "id": 1, "route": "utilities/settings/get", ''
            @ ''"args": ["store_url", "https://plugins.deckbrew.xyz/plugins"]}'')\<close>



section \<open>Facts about the codec primitives\<close>

lemma length_be_bytes: "length (be_bytes k n) = k"
  by (induction k arbitrary: n) simp_all

lemma unpack_be_snoc: "unpack_be (bs @ [b]) = unpack_be bs * 256 + unat b"
  by (simp add: unpack_be_def)

lemma unpack_be_be_bytes: "unpack_be (be_bytes k n) = n mod 256 ^ k"
proof (induction k arbitrary: n)
  case 0
  show ?case by (simp add: unpack_be_def)
next
  case (Suc k)
  have "unat (of_nat n :: byte) = n mod 256"
    by (simp add: unat_of_nat)
  then show ?case
    by (simp add: unpack_be_snoc Suc.IH mod_mult2_eq)
qed

lemma unpack_pack_H: "n < 65536 \<Longrightarrow> unpack_be (pack_H n) = n"
  by (simp add: pack_H_def unpack_be_be_bytes)

lemma unpack_pack_Q: "n < 2 ^ 64 \<Longrightarrow> unpack_be (pack_Q n) = n"
  by (simp add: pack_Q_def unpack_be_be_bytes)

lemma length_xor_mask: "length (xor_mask m p) = length p"
  by (simp add: xor_mask_def)

lemma nth_xor_mask: "i < length p \<Longrightarrow> xor_mask m p ! i = p ! i XOR m ! (i mod 4)"
  by (simp add: xor_mask_def nth_enumerate_eq)

lemma xor_mask_involution: "xor_mask m (xor_mask m p) = p"
  by (rule nth_equalityI) (simp_all add: length_xor_mask nth_xor_mask xor.assoc)


lemma rd_send: "rd (send L t m a c) = rd c"
  by (simp add: send_def Let_def)

section \<open>Reading frames\<close>

lemma byte_and_7F: "(w :: byte) AND 0x7F = take_bit 7 w"
proof -
  have "(0x7F :: byte) = mask 7"
    by (simp add: mask_eq_exp_minus_1)
  then show ?thesis
    by (simp add: take_bit_eq_mask)
qed

lemma len7_small: "n < 126 \<Longrightarrow> (of_nat n OR 0x80 :: byte) AND 0x7F = of_nat n"
  by (simp add: byte_and_7F take_bit_of_nat take_bit_nat_eq_self)

lemma byte_and_80: "(w OR 0x80 :: byte) AND 0x80 = 0x80"
  by (simp add: bit.conj_disj_distrib2)

lemma unat_small: "n < 126 \<Longrightarrow> unat (of_nat n :: byte) = n"
  by (simp add: unat_of_nat)

lemma small_not_code: "n < 126 \<Longrightarrow> (of_nat n :: byte) \<noteq> 126 \<and> (of_nat n :: byte) \<noteq> 127"
proof -
  assume n: "n < 126"
  have "unat (of_nat n :: byte) \<noteq> unat (126 :: byte)"
    and "unat (of_nat n :: byte) \<noteq> unat (127 :: byte)"
    using n by (simp_all add: unat_of_nat)
  then show ?thesis by auto
qed

lemma length_mask_bytes: "length (mask_bytes m) = 4"
  by (cases m) simp

lemma readexactly_append:
  "length xs = n \<Longrightarrow> readexactly n (c\<lparr>rd := xs @ rest\<rparr>) = (Inr xs, c\<lparr>rd := rest\<rparr>)"
  by (simp add: readexactly_def)

lemma read_frame_Cons2:
  "read_frame (c\<lparr>rd := b0 # b1 # bs\<rparr>) = after_head b1 (c\<lparr>rd := bs\<rparr>)"
  by (simp add: read_frame_def after_head_def andthen_def readexactly_def Let_def)

lemma text_frame_small:
  "length P < 126 \<Longrightarrow>
   text_frame m P = [0x81, of_nat (length P) OR 0x80] @ mask_bytes m @ xor_mask (mask_bytes m) P"
  by (simp add: text_frame_def)

lemma text_frame_mid:
  "126 \<le> length P \<Longrightarrow> length P < 65536 \<Longrightarrow>
   text_frame m P = [0x81, 0xFE] @ pack_H (length P) @ mask_bytes m @ xor_mask (mask_bytes m) P"
  by (simp add: text_frame_def)

lemma text_frame_big:
  "65536 \<le> length P \<Longrightarrow>
   text_frame m P = [0x81, 0xFF] @ pack_Q (length P) @ mask_bytes m @ xor_mask (mask_bytes m) P"
  by (simp add: text_frame_def)

lemma length_pack_H: "length (pack_H n) = 2"
  by (simp add: pack_H_def length_be_bytes)

lemma length_pack_Q: "length (pack_Q n) = 8"
  by (simp add: pack_Q_def length_be_bytes)

lemma read_text_frame:
  assumes "length P < 2 ^ 64"
  shows "read_frame (c\<lparr>rd := text_frame m P @ rest\<rparr>) = (Inr P, c\<lparr>rd := rest\<rparr>)"
proof -
  consider (small) "length P < 126" | (mid) "126 \<le> length P" "length P < 65536"
    | (big) "65536 \<le> length P"
    by linarith
  then show ?thesis
  proof cases
    case small
    then show ?thesis
      by (simp add: text_frame_small read_frame_Cons2 after_head_def len7_small byte_and_80
          small_not_code unat_small andthen_def ret_def readexactly_append length_mask_bytes
          length_xor_mask xor_mask_involution)
  next
    case mid
    then show ?thesis
      by (simp add: text_frame_mid read_frame_Cons2 after_head_def andthen_def ret_def
          readexactly_append length_mask_bytes length_xor_mask xor_mask_involution
          length_pack_H unpack_pack_H)
  next
    case big
    then show ?thesis
      using assms
      by (simp add: text_frame_big read_frame_Cons2 after_head_def andthen_def ret_def
          readexactly_append length_mask_bytes length_xor_mask xor_mask_involution
          length_pack_Q unpack_pack_Q)
  qed
qed

subsection \<open>How many octets a frame takes\<close>

lemma readexactly_short:
  "length (rd c) < n \<Longrightarrow> \<exists>c'. readexactly n c = (Inl (end_exn (rd_end c)), c')"
  by (simp add: readexactly_def end_exn_def split: ending.splits)

lemma readexactly_ok:
  "n \<le> length (rd c) \<Longrightarrow> readexactly n c = (Inr (take n (rd c)), c\<lparr>rd := drop n (rd c)\<rparr>)"
  by (simp add: readexactly_def)

lemma after_head_ok:
  assumes "ext_size b1 + mask_size b1 + declared_len b1 (rd c) \<le> length (rd c)"
  shows "after_head b1 c =
    (Inr (frame_payload (b0 # b1 # rd c)),
     c\<lparr>rd := drop (ext_size b1 + mask_size b1 + declared_len b1 (rd c)) (rd c)\<rparr>)"
proof -
  consider (c126) "b1 AND 0x7F = 126" | (c127) "b1 AND 0x7F = 127"
    | (inl) "b1 AND 0x7F \<noteq> 126" "b1 AND 0x7F \<noteq> 127"
    by blast
  then show ?thesis
  proof cases
    case c126
    with assms show ?thesis
      by (cases "b1 AND 0x80 = 0")
        (simp_all add: after_head_def frame_payload_def ext_size_def mask_size_def
          declared_len_def andthen_def ret_def readexactly_ok Let_def add.commute)
  next
    case c127
    with assms show ?thesis
      by (cases "b1 AND 0x80 = 0")
        (simp_all add: after_head_def frame_payload_def ext_size_def mask_size_def
          declared_len_def andthen_def ret_def readexactly_ok Let_def add.commute)
  next
    case inl
    with assms show ?thesis
      by (cases "b1 AND 0x80 = 0")
        (simp_all add: after_head_def frame_payload_def ext_size_def mask_size_def
          declared_len_def andthen_def ret_def readexactly_ok Let_def add.commute)
  qed
qed

lemma after_head_short:
  assumes "length (rd c) < ext_size b1 \<or> length (rd c) < ext_size b1 + mask_size b1
    \<or> length (rd c) < ext_size b1 + mask_size b1 + declared_len b1 (rd c)"
  shows "\<exists>c'. after_head b1 c = (Inl (end_exn (rd_end c)), c')"
proof -
  consider (c126) "b1 AND 0x7F = 126" | (c127) "b1 AND 0x7F = 127"
    | (inl) "b1 AND 0x7F \<noteq> 126" "b1 AND 0x7F \<noteq> 127"
    by blast
  then show ?thesis
  proof cases
    case c126
    with assms show ?thesis
      by (cases "b1 AND 0x80 = 0")
        (auto simp add: after_head_def ext_size_def mask_size_def declared_len_def
          andthen_def ret_def readexactly_def end_exn_def Let_def split: ending.splits)
  next
    case c127
    with assms show ?thesis
      by (cases "b1 AND 0x80 = 0")
        (auto simp add: after_head_def ext_size_def mask_size_def declared_len_def
          andthen_def ret_def readexactly_def end_exn_def Let_def split: ending.splits)
  next
    case inl
    with assms show ?thesis
      by (cases "b1 AND 0x80 = 0")
        (auto simp add: after_head_def ext_size_def mask_size_def declared_len_def
          andthen_def ret_def readexactly_def end_exn_def Let_def split: ending.splits)
  qed
qed

lemma frame_need_Cons2:
  "frame_need (b0 # b1 # t) =
     2 + (if length t < ext_size b1 then ext_size b1
          else if length t < ext_size b1 + mask_size b1 then ext_size b1 + mask_size b1
          else ext_size b1 + mask_size b1 + declared_len b1 t)"
  by (simp add: frame_need_def)

lemma frame_need_ge2: "2 \<le> frame_need bs"
  by (simp add: frame_need_def)

lemma read_frame_ok:
  assumes "frame_need (rd c) \<le> length (rd c)"
  shows "read_frame c = (Inr (frame_payload (rd c)), c\<lparr>rd := drop (frame_need (rd c)) (rd c)\<rparr>)"
proof -
  from assms frame_need_ge2 [of "rd c"] have "2 \<le> length (rd c)"
    by linarith
  then obtain b0 b1 t where bs: "rd c = b0 # b1 # t"
    by (cases "rd c"; cases "tl (rd c)") auto
  from assms bs have fit: "ext_size b1 + mask_size b1 + declared_len b1 t \<le> length t"
    by (simp add: frame_need_Cons2 split: if_splits)
  then have need: "frame_need (b0 # b1 # t) = 2 + (ext_size b1 + mask_size b1 + declared_len b1 t)"
    by (simp add: frame_need_Cons2)
  have "read_frame c = read_frame (c\<lparr>rd := b0 # b1 # t\<rparr>)"
    by (simp flip: bs)
  then have "read_frame c = after_head b1 (c\<lparr>rd := t\<rparr>)"
    by (simp only: read_frame_Cons2)
  also have "after_head b1 (c\<lparr>rd := t\<rparr>) = (Inr (frame_payload (b0 # b1 # t)),
      c\<lparr>rd := drop (ext_size b1 + mask_size b1 + declared_len b1 t) t\<rparr>)"
    using after_head_ok [of b1 "c\<lparr>rd := t\<rparr>" b0] fit by simp
  finally show ?thesis
    by (simp add: bs need)
qed

lemma read_frame_short:
  assumes "length (rd c) < frame_need (rd c)"
  shows "\<exists>c'. read_frame c = (Inl (end_exn (rd_end c)), c')"
proof (cases "length (rd c) < 2")
  case True
  then show ?thesis
    by (simp add: read_frame_def andthen_def readexactly_def end_exn_def split: ending.splits)
next
  case False
  then obtain b0 b1 t where bs: "rd c = b0 # b1 # t"
    by (cases "rd c"; cases "tl (rd c)") auto
  have "read_frame c = read_frame (c\<lparr>rd := b0 # b1 # t\<rparr>)"
    by (simp flip: bs)
  then have "read_frame c = after_head b1 (c\<lparr>rd := t\<rparr>)"
    by (simp only: read_frame_Cons2)
  moreover from assms bs have "length t < ext_size b1 \<or> length t < ext_size b1 + mask_size b1
      \<or> length t < ext_size b1 + mask_size b1 + declared_len b1 t"
    by (simp add: frame_need_Cons2 split: if_splits)
  then have "\<exists>c'. after_head b1 (c\<lparr>rd := t\<rparr>) = (Inl (end_exn (rd_end c)), c')"
    using after_head_short [of "c\<lparr>rd := t\<rparr>" b1] by simp
  ultimately show ?thesis
    by simp
qed

lemma read_frame_Inr_need:
  assumes "read_frame c = (Inr p, c')"
  shows "frame_need (rd c) \<le> length (rd c) \<and> p = frame_payload (rd c)
    \<and> c' = c\<lparr>rd := drop (frame_need (rd c)) (rd c)\<rparr>"
proof (cases "frame_need (rd c) \<le> length (rd c)")
  case True
  with assms read_frame_ok [OF True] show ?thesis
    by simp
next
  case False
  then have "length (rd c) < frame_need (rd c)"
    by simp
  from read_frame_short [OF this] assms show ?thesis
    by auto
qed

lemma declared_len_take:
  "ext_size b1 \<le> n \<Longrightarrow> declared_len b1 (take n t) = declared_len b1 t"
  by (auto simp: declared_len_def ext_size_def min_def split: if_splits)

lemma frame_need_take:
  assumes "frame_need bs \<le> length bs" "k < frame_need bs"
  shows "k < frame_need (take k bs)"
proof (cases "k < 2")
  case True
  then show ?thesis
    by (simp add: frame_need_def)
next
  case False
  from assms frame_need_ge2 [of bs] have "2 \<le> length bs"
    by linarith
  then obtain b0 b1 t where bs: "bs = b0 # b1 # t"
    by (cases bs; cases "tl bs") auto
  from False obtain j where k: "k = Suc (Suc j)"
    by (cases k; cases "k - 1") auto
  from assms bs k have fit: "ext_size b1 + mask_size b1 + declared_len b1 t \<le> length t"
    and j: "j < ext_size b1 + mask_size b1 + declared_len b1 t"
    by (simp_all add: frame_need_Cons2 split: if_splits)
  show ?thesis
  proof (cases "ext_size b1 \<le> j")
    case True
    with fit j show ?thesis
      by (simp add: bs k frame_need_Cons2 declared_len_take min_def)
  next
    case False
    with fit j show ?thesis
      by (simp add: bs k frame_need_Cons2 min_def)
  qed
qed

lemma recv_of_read_failure:
  assumes "read_frame c = (Inl (end_exn e), c')"
  shows "recv L c = (Inr JNull, c')"
  using assms by (simp add: recv_def andthen_def end_exn_def split: ending.splits)

lemma recv_of_read_frame:
  assumes "read_frame c = (Inr p, c')"
  shows "recv L c =
    (if \<not> utf8_valid p then (Inl UnicodeDecodeError, c')
     else case json_loads L p of None \<Rightarrow> (Inl JSONDecodeError, c') | Some v \<Rightarrow> (Inr v, c'))"
  using assms
  by (simp add: recv_def andthen_def loads_decode_def raise_def ret_def split: option.splits)

section \<open>Facts about recv inside the flows\<close>

lemma read_frame_only_reads:
  "read_frame c = (r, c') \<Longrightarrow> c' = c\<lparr>rd := rd c'\<rparr>"
  unfolding read_frame_def andthen_def readexactly_def ret_def Let_def
  by (auto split: if_splits ending.splits)

lemma recv_only_reads:
  assumes "recv L c = (r, c')"
  shows "c' = c\<lparr>rd := rd c'\<rparr>"
proof -
  obtain q c1 where q: "read_frame c = (q, c1)"
    by (cases "read_frame c")
  from assms q have "c' = c1"
    by (auto simp: recv_def andthen_def loads_decode_def raise_def ret_def
        split: sum.splits if_splits option.splits)
  with read_frame_only_reads [OF q] show ?thesis
    by simp
qed




subsection \<open>Frames without a mask\<close>

lemma small_and_7F: "n < 128 \<Longrightarrow> (of_nat n :: byte) AND 0x7F = of_nat n"
  by (simp add: byte_and_7F take_bit_of_nat take_bit_nat_eq_self)

lemma small_and_80: "n < 128 \<Longrightarrow> (of_nat n :: byte) AND 0x80 = 0"
proof -
  assume n: "n < 128"
  have "(of_nat n :: byte) AND 0x80 = (of_nat n AND 0x7F) AND 0x80"
    using n by (simp add: small_and_7F)
  also have "\<dots> = of_nat n AND (0x7F AND 0x80)"
    by (simp only: and.assoc)
  also have "\<dots> = 0"
    by simp
  finally show ?thesis .
qed

lemma unpack_be_bound: "unpack_be bs < 256 ^ length bs"
proof (induction bs rule: rev_induct)
  case Nil
  show ?case by (simp add: unpack_be_def)
next
  case (snoc b bs)
  have "unat b < 256"
    using unsigned_less [of b] by simp
  with snoc show ?case
    by (simp add: unpack_be_snoc)
qed

lemma read_unmasked_inline:
  assumes "length P = n" "n < 126"
  shows "read_frame (c\<lparr>rd := [b0, of_nat n] @ P @ rest\<rparr>) = (Inr P, c\<lparr>rd := rest\<rparr>)"
  using assms
  by (simp add: read_frame_Cons2 after_head_def small_and_7F small_and_80 small_not_code
      unat_small andthen_def ret_def readexactly_append)

lemma read_unmasked_H:
  assumes "length P = n" "n < 2 ^ 16"
  shows "read_frame (c\<lparr>rd := [b0, 0x7E] @ pack_H n @ P @ rest\<rparr>) = (Inr P, c\<lparr>rd := rest\<rparr>)"
  using assms
  by (simp add: read_frame_Cons2 after_head_def andthen_def ret_def readexactly_append
      length_pack_H unpack_pack_H)

lemma read_unmasked_Q:
  assumes "length P = n" "n < 2 ^ 64"
  shows "read_frame (c\<lparr>rd := [b0, 0x7F] @ pack_Q n @ P @ rest\<rparr>) = (Inr P, c\<lparr>rd := rest\<rparr>)"
  using assms
  by (simp add: read_frame_Cons2 after_head_def andthen_def ret_def readexactly_append
      length_pack_Q unpack_pack_Q)

subsection \<open>Frames from the server in the examples\<close>

lemma recv_server_frame:
  assumes "length P = n" "n < 126" "utf8_valid P" "json_loads L P = Some v"
  shows "recv L (c\<lparr>rd := [b0, of_nat n] @ P @ rest\<rparr>) = (Inr v, c\<lparr>rd := rest\<rparr>)"
proof -
  have "read_frame (c\<lparr>rd := [b0, of_nat n] @ P @ rest\<rparr>) = (Inr P, c\<lparr>rd := rest\<rparr>)"
    using assms(1,2) by (rule read_unmasked_inline)
  from recv_of_read_frame [OF this, of L] assms(3,4) show ?thesis
    by simp
qed

lemmas sample_texts =
  reply_text_def error_text_def prompt_text_def short_prompt_text_def finish_text_def
  other_text_def ascii_def









lemma DeckyClient_rd: "DeckyClient bs e = (DeckyClient [] e)\<lparr>rd := bs\<rparr>"
  by (simp add: DeckyClient_def)







section \<open>Facts about close and the finally clauses\<close>

lemma log_fields:
  "wr (log s c) = wr c" "drawn (log s c) = drawn c"
  "wr (log_error x c) = wr c" "drawn (log_error x c) = drawn c" "rd (log_error x c) = rd c"
  "rd_end (log s c) = rd_end c" "rd_end (log_error x c) = rd_end c"
  by (simp_all add: log_def log_error_def)

lemma close_eq:
  "close L c =
     ((case rd_end c of EndOfFile \<Rightarrow> Inr () | ConnectionLost \<Rightarrow> Inl ConnectionResetError),
      closed L c)"
  by (simp add: closed_def close_def Let_def split: ending.splits)

lemma closed_fields:
  "wr (closed L c) = wr c @ [close_frame (urandom4 L (drawn c))]"
  "rd (closed L c) = rd c"
  "rd_end (closed L c) = rd_end c"
  "wr_closed (closed L c)"
  by (simp_all add: closed_def close_def Let_def split: ending.splits)

lemma finally_close_eq:
  "finally_close L (r, c) =
     ((case rd_end c of EndOfFile \<Rightarrow> r | ConnectionLost \<Rightarrow> Inl ConnectionResetError),
      closed L c)"
  by (simp add: finally_close_def close_eq split: ending.splits)


lemma fst_finally_close:
  "fst (finally_close L r) =
     (case rd_end (snd r) of EndOfFile \<Rightarrow> fst r | ConnectionLost \<Rightarrow> Inl ConnectionResetError)"
  by (cases r) (simp add: finally_close_eq split: ending.splits)

lemma recv_rd_end:
  assumes "recv L c = (r, c')"
  shows "rd_end c' = rd_end c"
proof -
  from recv_only_reads [OF assms] have "c' = c\<lparr>rd := rd c'\<rparr>" .
  then show ?thesis
    by (metis client.select_convs(3) client.surjective client.update_convs(2))
qed

section \<open>Facts about the install flow\<close>

lemma run_installer_after_loop:
  "run_installer L target_id store incoming e =
     after_loop L (install_try L target_id store (DeckyClient incoming e))"
  by (simp add: run_installer_def after_loop_def)

lemma install_try_not_found:
  assumes "find_target L target_id plugins = Inr None"
  shows "install_try L target_id (Inr plugins) c =
    (Inl (RuntimeError (''plugin id '' @ py_str L (JInt target_id) @ '' not found'')),
     log (''Connection established. Fetching plugin metadata for ID: '' @ py_str L (JInt target_id))
       (log ''Contacting Mock Server at 127.0.0.1:1337...'' c))"
  using assms by (simp add: install_try_def andthen_def lift_def raise_def)

lemma install_try_no_versions:
  assumes "find_target L target_id plugins = Inr (Some target)"
    and "or_list (p_versions target) = []"
  shows "install_try L target_id (Inr plugins) c =
    (Inl (RuntimeError ''store entry missing versions''),
     log (''Connection established. Fetching plugin metadata for ID: '' @ py_str L (JInt target_id))
       (log ''Contacting Mock Server at 127.0.0.1:1337...'' c))"
  using assms by (simp add: install_try_def andthen_def lift_def raise_def)

lemma install_try_no_artifact:
  assumes "find_target L target_id plugins = Inr (Some target)"
    and "or_list (p_versions target) \<noteq> []"
    and "or_str (v_artifact (latest_version (or_list (p_versions target)))) '''' = []"
  shows "install_try L target_id (Inr plugins) c =
    (Inl (RuntimeError ''latest version missing artifact URL''),
     log (''Connection established. Fetching plugin metadata for ID: '' @ py_str L (JInt target_id))
       (log ''Contacting Mock Server at 127.0.0.1:1337...'' c))"
  using assms by (simp add: install_try_def andthen_def lift_def raise_def Let_def)


lemma find_target_None:
  assumes "\<forall>p \<in> set plugins. \<exists>n. int_of_id L (p_id p) = Inr n \<and> n \<noteq> target_id"
  shows "find_target L target_id plugins = Inr None"
  using assms by (induction plugins) auto

lemma failed_before_call:
  "after_loop L (Inl x, log s (log s' (DeckyClient incoming e))) =
     ((case e of EndOfFile \<Rightarrow> Inl x | ConnectionLost \<Rightarrow> Inl ConnectionResetError),
      closed L (log_error x (log s (log s' (DeckyClient incoming e)))))"
  "wr (closed L (log_error x (log s (log s' (DeckyClient incoming e)))))
     = [close_frame (urandom4 L 0)]"
  by (simp_all add: after_loop_def finally_close_eq closed_fields log_fields
      log_def log_error_def DeckyClient_def split: ending.splits)








lemma loop_body_rd_end: "rd_end (snd (loop_body L c)) = rd_end c"
proof -
  obtain r c' where r: "recv L c = (r, c')"
    by (cases "recv L c")
  from recv_rd_end [OF r] have w: "rd_end c' = rd_end c" .
  show ?thesis
    using r w
    by (auto simp: loop_body_def andthen_def ret_def raise_def lift_def Let_def log_def send_def
        split: sum.splits json.splits)
qed

lemma install_loop_rd_end: "rd_end (snd (install_loop L c)) = rd_end c"
proof (induction L c rule: install_loop.induct)
  case (1 L c)
  obtain r c' where b: "loop_body L c = (r, c')"
    by (cases "loop_body L c")
  from loop_body_rd_end [of L c] b have w: "rd_end c' = rd_end c"
    by simp
  show ?case
  proof (cases r)
    case (Inl x)
    with b w show ?thesis
      by (simp add: install_loop.simps [of L c])
  next
    case (Inr s)
    show ?thesis
    proof (cases s)
      case Again
      with "1.IH" [OF b [symmetric] Inr] have "rd_end (snd (install_loop L c')) = rd_end c'"
        by simp
      with b w Inr Again show ?thesis
        by (simp add: install_loop.simps [of L c])
    next
      case (Stop success)
      with b w Inr show ?thesis
        by (simp add: install_loop.simps [of L c])
    qed
  qed
qed

lemma install_try_rd_end: "rd_end (snd (install_try L target_id store c)) = rd_end c"
  by (cases store; cases "find_target L target_id (projr store)")
    (auto simp: install_try_def andthen_def lift_def raise_def Let_def install_loop_rd_end
      log_def send_def split: option.splits)

lemma after_loop_reset:
  assumes "rd_end (snd r) = ConnectionLost"
  shows "fst (after_loop L r) = Inl ConnectionResetError"
  using assms
  by (cases r; cases "fst r") (auto simp: after_loop_def finally_close_eq log_fields)


lemma find_target_first:
  assumes "plugins = before @ target # rest"
    and "\<forall>p \<in> set before. \<exists>n. int_of_id L (p_id p) = Inr n \<and> n \<noteq> target_id"
    and "int_of_id L (p_id target) = Inr target_id"
  shows "find_target L target_id plugins = Inr (Some target)"
  using assms by (induction before arbitrary: plugins) auto


section \<open>Facts about consecutive sends and the settings flows\<close>

lemma wr_send_all:
  "wr (send_all L calls c) =
     wr c @ map (\<lambda>(k, msg_type, method, args).
                   text_frame (urandom4 L (drawn c + k))
                     (json_dumps L (message_dict msg_type (msg_id c + int k + 1) method args)))
              (enumerate 0 calls)"
proof (induction calls arbitrary: c)
  case Nil
  show ?case by simp
next
  case (Cons x calls)
  obtain t m a where x: "x = (t, m, a)"
    by (cases x)
  show ?case
    by (simp add: x Cons.IH enumerate_Suc_eq [of 0] send_def Let_def split_def algebra_simps)
qed

lemma msg_id_send_all: "msg_id (send_all L calls c) = msg_id c + int (length calls)"
  by (induction calls arbitrary: c) (auto simp: send_def Let_def)

lemma get_request_fields:
  "rd (get_request L incoming e) = incoming"
  "rd_end (get_request L incoming e) = e"
  "drawn (get_request L incoming e) = 1"
  "wr (get_request L incoming e) =
     [text_frame (urandom4 L 0)
        (json_dumps L (message_dict CALL 1 ''utilities/settings/get''
           [JStr ''store_url'', JStr DEFAULT_STORE_URL]))]"
  by (simp_all add: get_request_def send_def log_def DeckyClient_def Let_def)

lemma get_store_url_unfold:
  "get_store_url L incoming e =
     finally_close L
       (case recv L (get_request L incoming e) of
          (Inl x, c2) \<Rightarrow> (Inl x, log_error x c2)
        | (Inr msg, c2) \<Rightarrow>
            (case msg of
               JNull \<Rightarrow>
                 (Inl (RuntimeError ''Connection closed by server''),
                  log_error (RuntimeError ''Connection closed by server'') c2)
             | JObj d \<Rightarrow>
                 if py_eq_int (dict_get d ''type'') REPLY then
                   (Inr (dict_get d ''result''),
                    log (''Current store URL: '' @ py_str L (dict_get d ''result'')) c2)
                 else if py_eq_int (dict_get d ''type'') ERROR then
                   (Inl (RuntimeError (''Failed to get store URL: '' @ py_str L (dict_get d ''error''))),
                    log_error
                      (RuntimeError (''Failed to get store URL: '' @ py_str L (dict_get d ''error'')))
                      (log (''Server error: '' @ py_str L (dict_get d ''error'')) c2))
                 else
                   (Inl (RuntimeError ''Unexpected response type''),
                    log_error (RuntimeError ''Unexpected response type'') c2)
             | _ \<Rightarrow> (Inl AttributeError, log_error AttributeError c2)))"
  unfolding get_store_url_def Let_def
  by (rule arg_cong [where f = "finally_close L"])
    (simp add: get_try_def get_request_def andthen_def raise_def ret_def
      Let_def split: prod.splits sum.splits json.splits)


lemma get_store_url_fst:
  "fst (get_store_url L incoming e) =
     (case e of
        ConnectionLost \<Rightarrow> Inl ConnectionResetError
      | EndOfFile \<Rightarrow>
          (case fst (recv L (get_request L incoming e)) of
             Inl x \<Rightarrow> Inl x
           | Inr msg \<Rightarrow>
               (case msg of
                  JNull \<Rightarrow> Inl (RuntimeError ''Connection closed by server'')
                | JObj d \<Rightarrow>
                    if py_eq_int (dict_get d ''type'') REPLY then Inr (dict_get d ''result'')
                    else if py_eq_int (dict_get d ''type'') ERROR then
                      Inl (RuntimeError (''Failed to get store URL: ''
                                           @ py_str L (dict_get d ''error'')))
                    else Inl (RuntimeError ''Unexpected response type'')
                | _ \<Rightarrow> Inl AttributeError)))"
proof -
  obtain r c2 where r: "recv L (get_request L incoming e) = (r, c2)"
    by (cases "recv L (get_request L incoming e)")
  from recv_rd_end [OF r] have e: "rd_end c2 = e"
    by (simp add: get_request_fields)
  show ?thesis
    unfolding get_store_url_unfold r fst_conv
    using e
    by (cases r)
      (auto simp: fst_finally_close log_fields split: json.splits ending.splits)
qed

lemma configure_request_fields:
  "rd (configure_request L store_url incoming e) = incoming"
  "rd_end (configure_request L store_url incoming e) = e"
  by (simp_all add: configure_request_def send_def log_def DeckyClient_def Let_def)

lemma configure_store_url_unfold:
  "configure_store_url L store_url incoming e =
     finally_close L
       (case recv L (configure_request L store_url incoming e) of
          (Inl x, c2) \<Rightarrow> (Inl x, log_error x c2)
        | (Inr msg, c2) \<Rightarrow>
            (case msg of
               JNull \<Rightarrow>
                 (Inl (RuntimeError ''Connection closed by server''),
                  log_error (RuntimeError ''Connection closed by server'') c2)
             | JObj d \<Rightarrow>
                 if py_eq_int (dict_get d ''type'') REPLY then
                   (Inr (),
                    log (''Store URL configured successfully: ''
                           @ py_str L (dict_get d ''result'')) c2)
                 else if py_eq_int (dict_get d ''type'') ERROR then
                   (Inl (RuntimeError (''Failed to set store URL: '' @ py_str L (dict_get d ''error''))),
                    log_error
                      (RuntimeError (''Failed to set store URL: '' @ py_str L (dict_get d ''error'')))
                      (log (''Server error: '' @ py_str L (dict_get d ''error'')) c2))
                 else (Inr (), c2)
             | _ \<Rightarrow> (Inl AttributeError, log_error AttributeError c2)))"
  unfolding configure_store_url_def Let_def
  by (rule arg_cong [where f = "finally_close L"])
    (simp add: configure_try_def configure_request_def andthen_def
      raise_def ret_def Let_def split: prod.splits sum.splits json.splits)

lemma configure_store_url_fst:
  "fst (configure_store_url L store_url incoming e) =
     (case e of
        ConnectionLost \<Rightarrow> Inl ConnectionResetError
      | EndOfFile \<Rightarrow>
          (case fst (recv L (configure_request L store_url incoming e)) of
             Inl x \<Rightarrow> Inl x
           | Inr msg \<Rightarrow>
               (case msg of
                  JNull \<Rightarrow> Inl (RuntimeError ''Connection closed by server'')
                | JObj d \<Rightarrow>
                    if py_eq_int (dict_get d ''type'') REPLY then Inr ()
                    else if py_eq_int (dict_get d ''type'') ERROR then
                      Inl (RuntimeError (''Failed to set store URL: ''
                                           @ py_str L (dict_get d ''error'')))
                    else Inr ()
                | _ \<Rightarrow> Inl AttributeError)))"
proof -
  obtain r c2 where r: "recv L (configure_request L store_url incoming e) = (r, c2)"
    by (cases "recv L (configure_request L store_url incoming e)")
  from recv_rd_end [OF r] have e: "rd_end c2 = e"
    by (simp add: configure_request_fields)
  show ?thesis
    unfolding configure_store_url_unfold r fst_conv
    using e
    by (cases r)
      (auto simp: fst_finally_close log_fields split: json.splits ending.splits)
qed




subsection \<open>The octets of a status code\<close>

lemma pack_H_octets: "pack_H n = [of_nat (n div 256), of_nat n]"
  by (simp add: pack_H_def numeral_2_eq_2)

lemma status_octets:
  assumes "1000 \<le> n" "n \<le> 1015"
  shows "pack_H n = [3, of_nat n] \<and> (0x80 :: byte) \<le> of_nat n"
proof -
  from assms have d: "n div 256 = 3"
    by simp
  have "n mod 256 = n - 256 * (n div 256)"
    by (simp add: minus_mult_div_eq_mod)
  with d have "n mod 256 = n - 768"
    by simp
  moreover have "unat (of_nat n :: byte) = n mod 256"
    by (simp add: unat_of_nat)
  ultimately have "128 \<le> unat (of_nat n :: byte)"
    using assms by simp
  then have "(0x80 :: byte) \<le> of_nat n"
    by (simp add: word_le_nat_alt)
  then show ?thesis
    by (simp add: pack_H_octets d)
qed

section \<open>Facts about the frames written\<close>

lemma text_frame_parts:
  "\<exists>h. text_frame m P = h @ mask_bytes m @ xor_mask (mask_bytes m) P"
  by (simp add: text_frame_def Let_def)

lemma text_frame_mask_octets:
  "take 4 (drop (length (text_frame m P) - length P - 4) (text_frame m P)) = mask_bytes m"
proof -
  obtain h where "text_frame m P = h @ mask_bytes m @ xor_mask (mask_bytes m) P"
    using text_frame_parts by blast
  then show ?thesis
    by (simp add: length_mask_bytes length_xor_mask)
qed

lemma text_frame_payload_octets:
  assumes "i < length P"
  shows "text_frame m P ! (length (text_frame m P) - length P + i)
    = P ! i XOR mask_bytes m ! (i mod 4)"
proof -
  obtain h where "text_frame m P = h @ mask_bytes m @ xor_mask (mask_bytes m) P"
    using text_frame_parts by blast
  with assms show ?thesis
    by (simp add: length_mask_bytes length_xor_mask nth_append nth_xor_mask)
qed

lemma text_frame_first: "text_frame m P ! 0 = 0x81"
  by (simp add: text_frame_def Let_def)

lemma digits_unfold:
  "0 < fuel \<Longrightarrow>
   digits fuel n =
     (if n < 10 then [''0123456789'' ! n]
      else digits (fuel - 1) (n div 10) @ [''0123456789'' ! (n mod 10)])"
  by (cases fuel) simp_all

lemma sample_str_42: "py_str sample_lib (JInt 42) = ''42''"
  by (simp add: sample_lib_def sample_str_def str_int_def digits_unfold)

lemma sample_dumps_calls:
  "json_dumps sample_lib
     (JObj [(''type'', JInt 0), (''id'', JInt 1), (''route'', JStr ''utilities/install_plugin''),
            (''args'', JArr [JStr ''http://x/a9.zip'', JStr ''demo'', JStr ''1.9.0'', JStr ''h9'',
                             JInt 0])])
     = install_call_text"
  "json_dumps sample_lib
     (JObj [(''type'', JInt 0), (''id'', JInt 2),
            (''route'', JStr ''utilities/confirm_plugin_install''), (''args'', JArr [JStr ''r7''])])
     = confirm_call_text"
  "json_dumps sample_lib
     (JObj [(''type'', JInt 0), (''id'', JInt 1), (''route'', JStr ''utilities/settings/get''),
            (''args'', JArr [JStr ''store_url'', JStr ''https://plugins.deckbrew.xyz/plugins''])])
     = get_call_text"
  by (simp_all add: sample_lib_def install_call_text_def confirm_call_text_def get_call_text_def
      quoted_def str_int_def numeral_2_eq_2)

lemma sample_masks: "urandom4 sample_lib k = (of_nat k, 2, 3, 4)"
  by (simp add: sample_lib_def)

section \<open>The flows on a connection the server has reset\<close>

text \<open>
  When the stream ends with a lost connection, \<open>wait_closed()\<close> raises inside the
  \<open>finally\<close> clause, and each flow raises \<open>ConnectionResetError\<close> in place of what
  its \<open>try\<close> block returned or raised.
\<close>

lemma flows_on_reset_connection:
  "fst (get_store_url L incoming ConnectionLost) = Inl ConnectionResetError"
  "fst (configure_store_url L store_url incoming ConnectionLost) = Inl ConnectionResetError"
  "fst (run_installer L target_id store incoming ConnectionLost) = Inl ConnectionResetError"
proof -
  show "fst (get_store_url L incoming ConnectionLost) = Inl ConnectionResetError"
    by (simp add: get_store_url_fst)
  show "fst (configure_store_url L store_url incoming ConnectionLost) = Inl ConnectionResetError"
    by (simp add: configure_store_url_fst)
  have "rd_end (snd (install_try L target_id store (DeckyClient incoming ConnectionLost)))
      = ConnectionLost"
    by (simp add: install_try_rd_end DeckyClient_def)
  then show "fst (run_installer L target_id store incoming ConnectionLost)
      = Inl ConnectionResetError"
    unfolding run_installer_after_loop by (rule after_loop_reset)
qed

section \<open>Claims\<close>

text \<open>
  C1. Reading back a masked text frame gives its payload: for every payload \<open>P\<close> that
  a length field can describe, and so at the lengths 0, 1, 125, 126, 65535 and 65536,
  \<open>recv\<close>'s frame reader applied to the frame \<open>send\<close> builds around \<open>P\<close> returns \<open>P\<close>
  and consumes exactly that frame, leaving what follows it. The frame starts with the
  octet \<open>0x81\<close> and has the mask bit set; the four mask octets stand before the payload,
  and the payload octet at position \<open>i\<close> is \<open>P[i]\<close> XOR the mask octet at position
  \<open>i mod 4\<close>. The length is in the low seven bits of the second octet below 126, in two
  big-endian octets after the code 126 below 65536, and in eight big-endian octets after
  the code 127 from there on.
\<close>

theorem frame_round_trip:
  assumes "length P < 2 ^ 64"
  shows "read_frame (c\<lparr>rd := text_frame m P @ rest\<rparr>) = (Inr P, c\<lparr>rd := rest\<rparr>)
    \<and> text_frame m P ! 0 = 0x81
    \<and> text_frame m P ! 1 AND 0x80 = 0x80
    \<and> take 4 (drop (length (text_frame m P) - length P - 4) (text_frame m P)) = mask_bytes m
    \<and> (\<forall>i < length P.
          text_frame m P ! (length (text_frame m P) - length P + i)
            = P ! i XOR mask_bytes m ! (i mod 4))
    \<and> (length P < 126 \<longrightarrow>
          unat (text_frame m P ! 1 AND 0x7F) = length P
          \<and> length (text_frame m P) = 2 + 4 + length P)
    \<and> (126 \<le> length P \<and> length P < 65536 \<longrightarrow>
          text_frame m P ! 1 AND 0x7F = 126
          \<and> unpack_be (take 2 (drop 2 (text_frame m P))) = length P
          \<and> length (text_frame m P) = 2 + 2 + 4 + length P)
    \<and> (65536 \<le> length P \<longrightarrow>
          text_frame m P ! 1 AND 0x7F = 127
          \<and> unpack_be (take 8 (drop 2 (text_frame m P))) = length P
          \<and> length (text_frame m P) = 2 + 8 + 4 + length P)"
proof -
  consider (small) "length P < 126" | (mid) "126 \<le> length P" "length P < 65536"
    | (big) "65536 \<le> length P"
    by linarith
  then have widths: "text_frame m P ! 1 AND 0x80 = 0x80
    \<and> (length P < 126 \<longrightarrow>
          unat (text_frame m P ! 1 AND 0x7F) = length P
          \<and> length (text_frame m P) = 2 + 4 + length P)
    \<and> (126 \<le> length P \<and> length P < 65536 \<longrightarrow>
          text_frame m P ! 1 AND 0x7F = 126
          \<and> unpack_be (take 2 (drop 2 (text_frame m P))) = length P
          \<and> length (text_frame m P) = 2 + 2 + 4 + length P)
    \<and> (65536 \<le> length P \<longrightarrow>
          text_frame m P ! 1 AND 0x7F = 127
          \<and> unpack_be (take 8 (drop 2 (text_frame m P))) = length P
          \<and> length (text_frame m P) = 2 + 8 + 4 + length P)"
  proof cases
    case small
    then show ?thesis
      by (simp add: text_frame_small len7_small byte_and_80 unat_small length_mask_bytes
          length_xor_mask)
  next
    case mid
    then show ?thesis
      by (simp add: text_frame_mid length_mask_bytes length_xor_mask length_pack_H
          unpack_pack_H)
  next
    case big
    then show ?thesis
      using assms
      by (simp add: text_frame_big length_mask_bytes length_xor_mask length_pack_Q
          unpack_pack_Q)
  qed
  have masked: "\<forall>i < length P.
          text_frame m P ! (length (text_frame m P) - length P + i)
            = P ! i XOR mask_bytes m ! (i mod 4)"
    by (simp add: text_frame_payload_octets)
  from read_text_frame [OF assms] text_frame_first text_frame_mask_octets masked widths
  show ?thesis
    by blast
qed

theorem frame_round_trip_witness:
  "length [0x7B, 0x7D :: byte] < 2 ^ 64
   \<and> text_frame (1, 2, 3, 4) [0x7B, 0x7D] = [0x81, 0x82, 1, 2, 3, 4, 0x7A, 0x7F]
   \<and> read_frame (DeckyClient [0x81, 0x82, 1, 2, 3, 4, 0x7A, 0x7F] EndOfFile)
       = (Inr [0x7B, 0x7D], DeckyClient [] EndOfFile)
   \<and> [0x81, 0x82, 1, 2, 3, 4, 0x7A, 0x7F :: byte] ! (8 - 2 + 0) = 0x7B XOR 1
   \<and> [0x81, 0x82, 1, 2, 3, 4, 0x7A, 0x7F :: byte] ! (8 - 2 + 1) = 0x7D XOR 2"
proof -
  have f: "text_frame (1, 2, 3, 4) [0x7B, 0x7D] = [0x81, 0x82, 1, 2, 3, 4, 0x7A, 0x7F]"
    by (simp add: text_frame_def xor_mask_def Let_def)
  from frame_round_trip [where P = "[0x7B, 0x7D]" and c = "DeckyClient [] EndOfFile"
      and m = "(1, 2, 3, 4)" and rest = "[]"]
  show ?thesis
    by (simp add: f DeckyClient_def)
qed





text \<open>
  C4. The catalog step of \<open>run_installer\<close> fails in three ways, tried in this order.
  When every entry's \<open>id\<close> is a number other than the target, the flow raises
  \<open>plugin id N not found\<close>, whatever the entries hold besides. When the first entry
  whose \<open>id\<close> is the target has no versions, it raises \<open>store entry missing versions\<close>,
  whatever else the entry holds. When that entry has versions and the one with the
  greatest name has no artifact URL, it raises \<open>latest version missing artifact URL\<close>.
  In all three the flow ends there: the only frame it ever writes, however the stream
  ends, is the Close frame of \<open>close\<close>, first octet \<open>0x88\<close>, and no Call. The
  exception named is what the flow raises on a connection that ends with a clean end of
  file, where \<open>close\<close> returns.
\<close>

theorem catalog_step_failures:
  "((\<forall>p \<in> set plugins. \<exists>n. int_of_id L (p_id p) = Inr n \<and> n \<noteq> target_id)
      \<longrightarrow> fst (run_installer L target_id (Inr plugins) incoming EndOfFile)
            = Inl (RuntimeError (''plugin id '' @ py_str L (JInt target_id) @ '' not found''))
          \<and> wr (snd (run_installer L target_id (Inr plugins) incoming e))
            = [close_frame (urandom4 L 0)])
   \<and> (plugins = before @ target # rest
       \<and> (\<forall>p \<in> set before. \<exists>n. int_of_id L (p_id p) = Inr n \<and> n \<noteq> target_id)
       \<and> int_of_id L (p_id target) = Inr target_id
       \<and> or_list (p_versions target) = []
      \<longrightarrow> fst (run_installer L target_id (Inr plugins) incoming EndOfFile)
            = Inl (RuntimeError ''store entry missing versions'')
          \<and> wr (snd (run_installer L target_id (Inr plugins) incoming e))
            = [close_frame (urandom4 L 0)])
   \<and> (plugins = before @ target # rest
       \<and> (\<forall>p \<in> set before. \<exists>n. int_of_id L (p_id p) = Inr n \<and> n \<noteq> target_id)
       \<and> int_of_id L (p_id target) = Inr target_id
       \<and> or_list (p_versions target) \<noteq> []
       \<and> or_str (v_artifact (latest_version (or_list (p_versions target)))) '''' = []
      \<longrightarrow> fst (run_installer L target_id (Inr plugins) incoming EndOfFile)
            = Inl (RuntimeError ''latest version missing artifact URL'')
          \<and> wr (snd (run_installer L target_id (Inr plugins) incoming e))
            = [close_frame (urandom4 L 0)])
   \<and> close_frame (urandom4 L 0) ! 0 = 0x88"
proof (intro conjI impI)
  assume "\<forall>p \<in> set plugins. \<exists>n. int_of_id L (p_id p) = Inr n \<and> n \<noteq> target_id"
  then have "find_target L target_id plugins = Inr None"
    by (rule find_target_None)
  then have r: "run_installer L target_id (Inr plugins) incoming e' =
      after_loop L (Inl (RuntimeError (''plugin id '' @ py_str L (JInt target_id) @ '' not found'')),
        log (''Connection established. Fetching plugin metadata for ID: '' @ py_str L (JInt target_id))
          (log ''Contacting Mock Server at 127.0.0.1:1337...'' (DeckyClient incoming e')))" for e'
    by (simp add: run_installer_after_loop install_try_not_found)
  show "fst (run_installer L target_id (Inr plugins) incoming EndOfFile)
            = Inl (RuntimeError (''plugin id '' @ py_str L (JInt target_id) @ '' not found''))"
    by (simp add: r failed_before_call(1))
  show "wr (snd (run_installer L target_id (Inr plugins) incoming e)) = [close_frame (urandom4 L 0)]"
    by (simp add: r failed_before_call)
next
  assume a: "plugins = before @ target # rest
       \<and> (\<forall>p \<in> set before. \<exists>n. int_of_id L (p_id p) = Inr n \<and> n \<noteq> target_id)
       \<and> int_of_id L (p_id target) = Inr target_id
       \<and> or_list (p_versions target) = []"
  then have "find_target L target_id plugins = Inr (Some target)"
    by (intro find_target_first [of plugins before target rest]) auto
  with a have r: "run_installer L target_id (Inr plugins) incoming e' =
      after_loop L (Inl (RuntimeError ''store entry missing versions''),
        log (''Connection established. Fetching plugin metadata for ID: '' @ py_str L (JInt target_id))
          (log ''Contacting Mock Server at 127.0.0.1:1337...'' (DeckyClient incoming e')))" for e'
    by (simp add: run_installer_after_loop install_try_no_versions)
  show "fst (run_installer L target_id (Inr plugins) incoming EndOfFile)
            = Inl (RuntimeError ''store entry missing versions'')"
    by (simp add: r failed_before_call(1))
  show "wr (snd (run_installer L target_id (Inr plugins) incoming e)) = [close_frame (urandom4 L 0)]"
    by (simp add: r failed_before_call)
next
  assume a: "plugins = before @ target # rest
       \<and> (\<forall>p \<in> set before. \<exists>n. int_of_id L (p_id p) = Inr n \<and> n \<noteq> target_id)
       \<and> int_of_id L (p_id target) = Inr target_id
       \<and> or_list (p_versions target) \<noteq> []
       \<and> or_str (v_artifact (latest_version (or_list (p_versions target)))) '''' = []"
  then have "find_target L target_id plugins = Inr (Some target)"
    by (intro find_target_first [of plugins before target rest]) auto
  with a have r: "run_installer L target_id (Inr plugins) incoming e' =
      after_loop L (Inl (RuntimeError ''latest version missing artifact URL''),
        log (''Connection established. Fetching plugin metadata for ID: '' @ py_str L (JInt target_id))
          (log ''Contacting Mock Server at 127.0.0.1:1337...'' (DeckyClient incoming e')))" for e'
    by (simp add: run_installer_after_loop install_try_no_artifact)
  show "fst (run_installer L target_id (Inr plugins) incoming EndOfFile)
            = Inl (RuntimeError ''latest version missing artifact URL'')"
    by (simp add: r failed_before_call(1))
  show "wr (snd (run_installer L target_id (Inr plugins) incoming e)) = [close_frame (urandom4 L 0)]"
    by (simp add: r failed_before_call)
next
  show "close_frame (urandom4 L 0) ! 0 = 0x88"
    by (simp add: close_frame_def Let_def)
qed

theorem catalog_step_failures_witness:
  "fst (run_installer sample_lib 42
          (Inr [\<lparr>p_id = IdInt 7, p_name = None, p_versions = None\<rparr>]) [] EndOfFile)
     = Inl (RuntimeError ''plugin id 42 not found'')
   \<and> wr (snd (run_installer sample_lib 42
          (Inr [\<lparr>p_id = IdInt 7, p_name = None, p_versions = None\<rparr>]) [] EndOfFile))
     = [close_frame (0, 2, 3, 4)]
   \<and> fst (run_installer sample_lib 42
          (Inr [\<lparr>p_id = IdInt 7, p_name = None, p_versions = None\<rparr>,
                \<lparr>p_id = IdInt 42, p_name = None, p_versions = Some []\<rparr>]) [] EndOfFile)
     = Inl (RuntimeError ''store entry missing versions'')
   \<and> fst (run_installer sample_lib 42
          (Inr [\<lparr>p_id = IdInt 42, p_name = None, p_versions =
                   Some [\<lparr>v_name = Some ''dev'', v_artifact = None, v_hash = None\<rparr>]\<rparr>])
          [] EndOfFile)
     = Inl (RuntimeError ''latest version missing artifact URL'')"
proof -
  let ?p7 = "\<lparr>p_id = IdInt 7, p_name = None, p_versions = None\<rparr>"
  let ?p42 = "\<lparr>p_id = IdInt 42, p_name = None, p_versions = Some []\<rparr>"
  let ?q42 = "\<lparr>p_id = IdInt 42, p_name = None, p_versions =
                   Some [\<lparr>v_name = Some ''dev'', v_artifact = None, v_hash = None\<rparr>]\<rparr>"
  from catalog_step_failures [where L = sample_lib and target_id = 42 and plugins = "[?p7]"
      and incoming = "[]" and e = EndOfFile]
  have 1: "fst (run_installer sample_lib 42 (Inr [?p7]) [] EndOfFile)
       = Inl (RuntimeError ''plugin id 42 not found'')
     \<and> wr (snd (run_installer sample_lib 42 (Inr [?p7]) [] EndOfFile)) = [close_frame (0, 2, 3, 4)]"
    by (simp add: sample_str_42 sample_masks)
  from catalog_step_failures [where L = sample_lib and target_id = 42 and plugins = "[?p7, ?p42]"
      and before = "[?p7]" and target = ?p42 and rest = "[]" and incoming = "[]" and e = EndOfFile]
  have 2: "fst (run_installer sample_lib 42 (Inr [?p7, ?p42]) [] EndOfFile)
       = Inl (RuntimeError ''store entry missing versions'')"
    by simp
  from catalog_step_failures [where L = sample_lib and target_id = 42 and plugins = "[?q42]"
      and before = "[]" and target = ?q42 and rest = "[]" and incoming = "[]" and e = EndOfFile]
  have 3: "fst (run_installer sample_lib 42 (Inr [?q42]) [] EndOfFile)
       = Inl (RuntimeError ''latest version missing artifact URL'')"
    by (simp add: latest_version_def)
  from 1 2 3 show ?thesis
    by simp
qed

text \<open>
  C5. \<open>recv\<close> returns \<open>None\<close> on a stream that ends inside a frame: if a frame is read
  in full from the octets \<open>bs\<close>, taking \<open>length bs - length (rd c')\<close> of them, then on
  a stream that ends after only \<open>k\<close> of those octets, with fewer than that number,
  \<open>recv\<close> returns \<open>None\<close>, whether the end is a clean end of file or a lost connection
  and wherever it falls: in the header, the extended length, the mask or the payload.
  A frame that is read in full and whose payload is not a JSON text makes \<open>recv\<close> raise
  (\<open>UnicodeDecodeError\<close> or \<open>JSONDecodeError\<close>, both a \<open>ValueError\<close>), not return
  \<open>None\<close>.
\<close>

theorem recv_closed_stream_or_bad_json:
  "(read_frame (c\<lparr>rd := bs\<rparr>) = (Inr p, c') \<and> k < length bs - length (rd c')
      \<longrightarrow> fst (recv L (c\<lparr>rd := take k bs, rd_end := e\<rparr>)) = Inr JNull)
   \<and> (read_frame c = (Inr p, c') \<and> (\<not> utf8_valid p \<or> json_loads L p = None)
      \<longrightarrow> fst (recv L c) = Inl (if utf8_valid p then JSONDecodeError else UnicodeDecodeError))"
proof (intro conjI impI)
  assume a: "read_frame (c\<lparr>rd := bs\<rparr>) = (Inr p, c') \<and> k < length bs - length (rd c')"
  then have need: "frame_need bs \<le> length bs" and c': "rd c' = drop (frame_need bs) bs"
    using read_frame_Inr_need [of "c\<lparr>rd := bs\<rparr>" p c'] by simp_all
  with a have k: "k < frame_need bs"
    by simp
  have "k < frame_need (take k bs)"
    using need k by (rule frame_need_take)
  moreover have "length (take k bs) = k"
    using need k by simp
  ultimately have "length (rd (c\<lparr>rd := take k bs, rd_end := e\<rparr>))
      < frame_need (rd (c\<lparr>rd := take k bs, rd_end := e\<rparr>))"
    by simp
  from read_frame_short [OF this]
  obtain c'' where "read_frame (c\<lparr>rd := take k bs, rd_end := e\<rparr>) = (Inl (end_exn e), c'')"
    by auto
  then show "fst (recv L (c\<lparr>rd := take k bs, rd_end := e\<rparr>)) = Inr JNull"
    by (simp add: recv_of_read_failure)
next
  assume "read_frame c = (Inr p, c') \<and> (\<not> utf8_valid p \<or> json_loads L p = None)"
  then show "fst (recv L c) = Inl (if utf8_valid p then JSONDecodeError else UnicodeDecodeError)"
    by (auto simp: recv_of_read_frame)
qed

theorem recv_closed_stream_or_bad_json_witness:
  "fst (recv sample_lib (DeckyClient [0x81, 0x82, 1, 2, 3] ConnectionLost)) = Inr JNull
   \<and> fst (recv sample_lib (DeckyClient [0x81, 0x82, 1, 2, 3] EndOfFile)) = Inr JNull
   \<and> fst (recv sample_lib (DeckyClient [0x81, 0x01, 0x7B] EndOfFile)) = Inl JSONDecodeError
   \<and> fst (recv sample_lib (DeckyClient [0x81, 0x01, 0xFF] EndOfFile)) = Inl UnicodeDecodeError"
proof -
  let ?bs = "[0x81, 0x82, 1, 2, 3, 4, 0x7A, 0x7F] :: byte list"
  let ?c = "DeckyClient ?bs EndOfFile"
  let ?j = "DeckyClient [0x81, 0x01, 0x7B] EndOfFile"
  let ?u = "DeckyClient [0x81, 0x01, 0xFF] EndOfFile"
  have r: "read_frame (?c\<lparr>rd := ?bs\<rparr>) = (Inr [0x7B, 0x7D], DeckyClient [] EndOfFile)"
    by (simp add: DeckyClient_def read_frame_def andthen_def ret_def readexactly_def xor_mask_def)
  have k: "(5::nat) < length ?bs - length (rd (DeckyClient [] EndOfFile))"
    by (simp add: DeckyClient_def)
  have rj: "read_frame ?j = (Inr [0x7B], DeckyClient [] EndOfFile)"
    by (simp add: DeckyClient_def read_frame_def andthen_def ret_def readexactly_def)
  have ru: "read_frame ?u = (Inr [0xFF], DeckyClient [] EndOfFile)"
    by (simp add: DeckyClient_def read_frame_def andthen_def ret_def readexactly_def)
  have j: "utf8_valid [0x7B]" "json_loads sample_lib [0x7B] = None"
    by (simp_all add: sample_lib_def sample_loads_def sample_texts)
  have u: "\<not> utf8_valid [0xFF]"
    by (simp add: is_cont_def)
  from recv_closed_stream_or_bad_json [where c = ?c and bs = ?bs and p = "[0x7B, 0x7D]"
      and c' = "DeckyClient [] EndOfFile" and k = 5 and e = ConnectionLost and L = sample_lib]
    r k
  have 1: "fst (recv sample_lib (DeckyClient [0x81, 0x82, 1, 2, 3] ConnectionLost)) = Inr JNull"
    by (simp add: DeckyClient_def)
  from recv_closed_stream_or_bad_json [where c = ?c and bs = ?bs and p = "[0x7B, 0x7D]"
      and c' = "DeckyClient [] EndOfFile" and k = 5 and e = EndOfFile and L = sample_lib]
    r k
  have 2: "fst (recv sample_lib (DeckyClient [0x81, 0x82, 1, 2, 3] EndOfFile)) = Inr JNull"
    by (simp add: DeckyClient_def)
  from recv_closed_stream_or_bad_json [where c = ?j and p = "[0x7B]"
      and c' = "DeckyClient [] EndOfFile" and L = sample_lib] rj j
  have 3: "fst (recv sample_lib ?j) = Inl JSONDecodeError"
    by simp
  from recv_closed_stream_or_bad_json [where c = ?u and p = "[0xFF]"
      and c' = "DeckyClient [] EndOfFile" and L = sample_lib] ru u
  have 4: "fst (recv sample_lib ?u) = Inl UnicodeDecodeError"
    by simp
  from 1 2 3 4 show ?thesis
    by simp
qed

text \<open>
  C6, as the specification states it, fails: \<open>recv\<close> has no bound on the declared
  length. A frame that declares 64 MiB and one octet, followed by that many octets, is
  read in full.
\<close>

theorem frame_above_64MiB_is_read:
  "64 * 2 ^ 20 < length (replicate 67108865 (0x20 :: byte))
   \<and> read_frame (DeckyClient ([0x81, 0x7F] @ pack_Q 67108865 @ replicate 67108865 0x20) EndOfFile)
       = (Inr (replicate 67108865 0x20), DeckyClient [] EndOfFile)"
proof -
  have "read_frame ((DeckyClient [] EndOfFile)
            \<lparr>rd := [0x81, 0x7F] @ pack_Q 67108865 @ replicate 67108865 0x20 @ []\<rparr>)
        = (Inr (replicate 67108865 0x20), (DeckyClient [] EndOfFile)\<lparr>rd := []\<rparr>)"
    by (rule read_unmasked_Q) simp_all
  then show ?thesis
    by (simp add: DeckyClient_def)
qed

text \<open>
  C6, amended. Every length field is read as an unsigned big-endian number, which lies
  from 0 up to, not including, 256 to the number of its octets; and no bound is applied to it: for
  every declared length \<open>n\<close>, in each of the three forms of the length field, a stream
  that holds the \<open>n\<close> payload octets is read to the end of the frame and the payload
  returned.
\<close>

theorem read_frame_any_declared_length:
  assumes "length P = n"
  shows "unpack_be ext < 256 ^ length ext
    \<and> (n < 126 \<longrightarrow>
         read_frame (c\<lparr>rd := [b0, of_nat n] @ P @ rest\<rparr>) = (Inr P, c\<lparr>rd := rest\<rparr>))
    \<and> (n < 2 ^ 16 \<longrightarrow>
         read_frame (c\<lparr>rd := [b0, 0x7E] @ pack_H n @ P @ rest\<rparr>) = (Inr P, c\<lparr>rd := rest\<rparr>))
    \<and> (n < 2 ^ 64 \<longrightarrow>
         read_frame (c\<lparr>rd := [b0, 0x7F] @ pack_Q n @ P @ rest\<rparr>) = (Inr P, c\<lparr>rd := rest\<rparr>))"
proof (intro conjI impI)
  show "unpack_be ext < 256 ^ length ext"
    by (rule unpack_be_bound)
next
  assume "n < 126"
  with assms show "read_frame (c\<lparr>rd := [b0, of_nat n] @ P @ rest\<rparr>) = (Inr P, c\<lparr>rd := rest\<rparr>)"
    by (rule read_unmasked_inline)
next
  assume "n < 2 ^ 16"
  with assms show "read_frame (c\<lparr>rd := [b0, 0x7E] @ pack_H n @ P @ rest\<rparr>) = (Inr P, c\<lparr>rd := rest\<rparr>)"
    by (rule read_unmasked_H)
next
  assume "n < 2 ^ 64"
  with assms show "read_frame (c\<lparr>rd := [b0, 0x7F] @ pack_Q n @ P @ rest\<rparr>) = (Inr P, c\<lparr>rd := rest\<rparr>)"
    by (rule read_unmasked_Q)
qed

theorem read_frame_any_declared_length_witness:
  "length [0x7B, 0x7D :: byte] = 2
   \<and> unpack_be [0xFF, 0xFF] < 256 ^ 2
   \<and> read_frame (DeckyClient ([0x81, 0x7F] @ pack_Q 2 @ [0x7B, 0x7D]) EndOfFile)
       = (Inr [0x7B, 0x7D], DeckyClient [] EndOfFile)"
  using read_frame_any_declared_length [where P = "[0x7B, 0x7D]" and n = 2 and ext = "[0xFF, 0xFF]"
      and c = "DeckyClient [] EndOfFile" and ?b0.0 = "0x81" and rest = "[]"]
  by (simp add: DeckyClient_def)

text \<open>
  C7. A new client's counter is 0. \<open>send\<close> adds one to it, once, and the envelope it
  serializes has the new value in its \<open>id\<close> field, beside the type, the route and the
  arguments of the call. So after any sequence of calls on a new client the frames
  written are, in order, those of the envelopes with the ids 1, 2, 3 and so on: the
  frame at position \<open>k\<close>, counted from 0, carries the id \<open>k + 1\<close>.
\<close>

theorem message_ids_count_from_one:
  "msg_id (DeckyClient incoming e) = 0
   \<and> msg_id (send L msg_type method args c) = msg_id c + 1
   \<and> wr (send L msg_type method args c) =
       wr c @ [text_frame (urandom4 L (drawn c))
                 (json_dumps L
                    (JObj [(''type'', JInt msg_type), (''id'', JInt (msg_id c + 1)),
                           (''route'', JStr method), (''args'', JArr args)]))]
   \<and> wr (send_all L calls (DeckyClient incoming e)) =
       map (\<lambda>(k, msg_type, method, args).
              text_frame (urandom4 L k)
                (json_dumps L
                   (JObj [(''type'', JInt msg_type), (''id'', JInt (int k + 1)),
                          (''route'', JStr method), (''args'', JArr args)])))
         (enumerate 0 calls)
   \<and> msg_id (send_all L calls (DeckyClient incoming e)) = int (length calls)"
proof -
  have fresh: "msg_id (DeckyClient incoming e) = 0" "drawn (DeckyClient incoming e) = 0"
    "wr (DeckyClient incoming e) = []"
    by (simp_all add: DeckyClient_def)
  have one: "msg_id (send L msg_type method args c) = msg_id c + 1"
    by (simp add: send_def Let_def)
  have frame: "wr (send L msg_type method args c) =
       wr c @ [text_frame (urandom4 L (drawn c))
                 (json_dumps L
                    (JObj [(''type'', JInt msg_type), (''id'', JInt (msg_id c + 1)),
                           (''route'', JStr method), (''args'', JArr args)]))]"
    by (simp add: send_def message_dict_def Let_def)
  have frames: "wr (send_all L calls (DeckyClient incoming e)) =
       map (\<lambda>(k, msg_type, method, args).
              text_frame (urandom4 L k)
                (json_dumps L
                   (JObj [(''type'', JInt msg_type), (''id'', JInt (int k + 1)),
                          (''route'', JStr method), (''args'', JArr args)])))
         (enumerate 0 calls)"
    by (simp add: wr_send_all fresh message_dict_def)
  have count: "msg_id (send_all L calls (DeckyClient incoming e)) = int (length calls)"
    by (simp add: msg_id_send_all fresh)
  from fresh(1) one frame frames count show ?thesis
    by blast
qed

theorem message_ids_count_from_one_witness:
  "wr (send_all sample_lib
         [(0, ''utilities/install_plugin'',
           [JStr ''http://x/a9.zip'', JStr ''demo'', JStr ''1.9.0'', JStr ''h9'', JInt 0]),
          (0, ''utilities/confirm_plugin_install'', [JStr ''r7''])]
         (DeckyClient [] EndOfFile))
     = [text_frame (0, 2, 3, 4) install_call_text, text_frame (1, 2, 3, 4) confirm_call_text]
   \<and> msg_id (send_all sample_lib
         [(0, ''utilities/install_plugin'',
           [JStr ''http://x/a9.zip'', JStr ''demo'', JStr ''1.9.0'', JStr ''h9'', JInt 0]),
          (0, ''utilities/confirm_plugin_install'', [JStr ''r7''])]
         (DeckyClient [] EndOfFile)) = 2"
  using message_ids_count_from_one [of "[]" EndOfFile sample_lib 0 "''utilities/install_plugin''"
      "[JStr ''http://x/a9.zip'', JStr ''demo'', JStr ''1.9.0'', JStr ''h9'', JInt 0]"
      "DeckyClient [] EndOfFile"
      "[(0, ''utilities/install_plugin'',
           [JStr ''http://x/a9.zip'', JStr ''demo'', JStr ''1.9.0'', JStr ''h9'', JInt 0]),
          (0, ''utilities/confirm_plugin_install'', [JStr ''r7''])]"]
  by (simp add: enumerate_Suc_eq [of 0] sample_dumps_calls sample_masks)





text \<open>
  C10, as stated, fails for a few status codes. The two octets of the code 3376 are a
  carriage return and the digit 0; a carriage return is white space in JSON, so that
  \<open>json.loads\<close> gives the number 0 for them, and \<open>recv\<close> returns 0 for the Close frame
  with that code: neither an exception nor \<open>None\<close>.
\<close>

theorem close_frame_3376_is_parsed:
  "pack_H 3376 = [0x0D, 0x30]
   \<and> fst (recv sample_lib (DeckyClient ([0x88, 0x02] @ pack_H 3376) EndOfFile)) = Inr (JInt 0)"
proof -
  have p: "pack_H 3376 = [0x0D, 0x30]"
    by (simp add: pack_H_octets)
  have "json_loads sample_lib [0x0D, 0x30] = Some (JInt 0)"
    by (simp add: sample_lib_def sample_loads_def sample_texts)
  from recv_server_frame [where P = "[0x0D, 0x30]" and n = 2 and L = sample_lib and v = "JInt 0"
      and c = "DeckyClient [] EndOfFile" and ?b0.0 = "0x88" and rest = "[]", OF _ _ _ this]
  have "recv sample_lib (DeckyClient [0x88, 0x02, 0x0D, 0x30] EndOfFile)
      = (Inr (JInt 0), DeckyClient [] EndOfFile)"
    by (simp add: DeckyClient_def)
  with p show ?thesis
    by simp
qed

text \<open>
  C10, amended. \<open>recv\<close> does not look at the opcode: what it returns is the same
  whatever the first octet of the stream is, and after a whole frame it leaves the
  client in the same state. So the payload of a Close frame (first octet \<open>0x88\<close>) or of
  a Ping is decoded and parsed as that of a Text frame is, and there is no close
  handling: for a Close frame with a two-octet status code \<open>recv\<close> raises
  \<open>UnicodeDecodeError\<close> when the two octets are not UTF-8 and \<open>JSONDecodeError\<close> when
  they are not a JSON text, both a \<open>ValueError\<close>, and otherwise returns what
  \<open>json.loads\<close> makes of them. The octets of the status codes 1000 to 1015, and of
  every code with a first octet below \<open>0x80\<close> and a second from \<open>0x80\<close> on, are not
  UTF-8: for them \<open>recv\<close> raises and does not return \<open>None\<close>.
\<close>

theorem recv_ignores_opcode:
  "fst (recv L (c\<lparr>rd := b0 # bs\<rparr>)) = fst (recv L (c\<lparr>rd := b0' # bs\<rparr>))
   \<and> recv L (c\<lparr>rd := b0 # b1 # bs\<rparr>) = recv L (c\<lparr>rd := b0' # b1 # bs\<rparr>)
   \<and> fst (recv L (c\<lparr>rd := [0x88, 0x02, hi, lo] @ rest\<rparr>))
       = (if \<not> utf8_valid [hi, lo] then Inl UnicodeDecodeError
          else case json_loads L [hi, lo] of None \<Rightarrow> Inl JSONDecodeError | Some v \<Rightarrow> Inr v)
   \<and> (hi < 0x80 \<and> 0x80 \<le> lo \<longrightarrow>
         fst (recv L (c\<lparr>rd := [0x88, 0x02, hi, lo] @ rest\<rparr>)) = Inl UnicodeDecodeError)
   \<and> (1000 \<le> n \<and> n \<le> 1015 \<longrightarrow>
         fst (recv L (c\<lparr>rd := [0x88, 0x02] @ pack_H n @ rest\<rparr>)) = Inl UnicodeDecodeError)"
proof -
  have whole: "recv L (c\<lparr>rd := b0 # b1 # bs\<rparr>) = recv L (c\<lparr>rd := b0' # b1 # bs\<rparr>)"
    by (simp add: recv_def andthen_def read_frame_Cons2)
  have any: "fst (recv L (c\<lparr>rd := b0 # bs\<rparr>)) = fst (recv L (c\<lparr>rd := b0' # bs\<rparr>))"
  proof (cases bs)
    case Nil
    then show ?thesis
      by (simp add: recv_def andthen_def read_frame_def readexactly_def split: ending.splits)
  next
    case (Cons b1 t)
    then show ?thesis
      by (simp add: recv_def andthen_def read_frame_Cons2)
  qed
  have close: "fst (recv L (c\<lparr>rd := [0x88, 0x02, x, y] @ rest\<rparr>))
       = (if \<not> utf8_valid [x, y] then Inl UnicodeDecodeError
          else case json_loads L [x, y] of None \<Rightarrow> Inl JSONDecodeError | Some v \<Rightarrow> Inr v)"
    for x y
  proof -
    have "read_frame (c\<lparr>rd := [0x88, of_nat 2] @ [x, y] @ rest\<rparr>) = (Inr [x, y], c\<lparr>rd := rest\<rparr>)"
      by (rule read_unmasked_inline) simp_all
    then have r: "read_frame (c\<lparr>rd := [0x88, 0x02, x, y] @ rest\<rparr>) = (Inr [x, y], c\<lparr>rd := rest\<rparr>)"
      by simp
    show ?thesis
      by (simp only: recv_of_read_frame [OF r]) (simp split: option.splits)
  qed
  have bad: "\<not> utf8_valid [x, y]" if "x < 0x80 \<and> 0x80 \<le> y" for x y :: byte
    using that by (auto simp: is_cont_def)
  have codes: "fst (recv L (c\<lparr>rd := [0x88, 0x02] @ pack_H n @ rest\<rparr>)) = Inl UnicodeDecodeError"
    if "1000 \<le> n \<and> n \<le> 1015"
  proof -
    from that status_octets [of n] have p: "pack_H n = [3, of_nat n]" and lo: "(0x80 :: byte) \<le> of_nat n"
      by simp_all
    have "\<not> utf8_valid [3, of_nat n]"
      using lo by (intro bad) simp
    with close [of 3 "of_nat n"] show ?thesis
      by (simp add: p)
  qed
  from whole any close [of hi lo] bad [of hi lo] codes show ?thesis
    by simp
qed

theorem recv_ignores_opcode_witness:
  "(0x03 :: byte) < 0x80 \<and> (0x80 :: byte) \<le> 0xE8
   \<and> fst (recv sample_lib (DeckyClient [0x88, 0x02, 0x03, 0xE8] EndOfFile))
       = Inl UnicodeDecodeError
   \<and> (1000 :: nat) \<le> 1000 \<and> (1000 :: nat) \<le> 1015
   \<and> fst (recv sample_lib (DeckyClient ([0x88, 0x02] @ pack_H 1000) EndOfFile))
       = Inl UnicodeDecodeError"
  using recv_ignores_opcode [where hi = "0x03" and lo = "0xE8" and rest = "[]" and n = 1000
      and c = "DeckyClient [] EndOfFile" and L = sample_lib]
  by (simp add: DeckyClient_def)

end
